theory Spec2Isabelle
  imports Complex_Main "HOL-Library.AList" "HOL-Library.Char_ord"
    "HOL-Library.List_Lexorder" "HOL-Library.Product_Lexorder"
begin

section \<open>Values of the expense tracker\<close>

text \<open>
  The program (\<^verbatim>\<open>code.py\<close>, class \<^verbatim>\<open>ExpenseTracker\<close>) keeps its ledger in a pandas
  DataFrame \<^verbatim>\<open>self.expenses\<close>. The embedding follows the program column by column: a
  frame is an association list from column names to columns of cells, in column order.

  A number of a numeric column is a float64 or an int64. A float64 is the rational number
  it denotes (\<open>Fin\<close>) or one of the three special values; an int64 is \<open>Whole\<close> of its
  value. The sign of zero is not modelled. The sums of floats are those of pandas and
  numpy, which the environment below gives; an int64 sum wraps around.
\<close>

datatype number = Fin rat | PInf | NInf | NaN | Whole int

datatype caldate = Date (year: nat) (month: nat) (day: nat)

datatype clock = Clock (hour: nat) (minute: nat) (second: nat)

text \<open>
  A cell of a frame: text, a number, a \<^verbatim>\<open>datetime.date\<close>, a pandas \<^verbatim>\<open>Timestamp\<close>
  or \<^verbatim>\<open>NaT\<close>. Booleans are not represented. Text is ASCII: \<open>strip\<close> and
  \<open>capitalize\<close> below are Python's on ASCII characters, and the lemmas that speak of
  them for every text assume \<open>ascii\<close>.
\<close>

datatype cell = Str string | Num number | Day caldate | Stamp caldate clock | NaT

type_synonym series = "cell list"

type_synonym dataframe = "(string \<times> series) list"

datatype exn =
    EmptyDataError | ParserError | ValueError | KeyError string | TypeError | OSError

text \<open>
  A file is what \<^verbatim>\<open>pd.read_csv\<close> makes of its bytes: nothing to parse (an empty
  file), bytes the parser raises on (also a directory), or a table, given as the header
  names with the text fields below each. Delimiters and quoting are not modelled.
\<close>

datatype disk_file = EmptyFile | Unparsable | Csv "(string \<times> string list) list"

text \<open>Every \<^verbatim>\<open>print\<close> of the program is one message; the text itself is not modelled
  beyond the values it shows.\<close>

datatype msg =
    LoadedRecords nat
  | CsvFileEmpty
  | ErrorLoadingCsv exn
  | NoExistingFile
  | AmountMustBePositive
  | AddedExpense string string string
  | InvalidAmount
  | UnexpectedError exn
  | NothingToSummarize
  | SummaryHeader
  | Table dataframe
  | Rule
  | TotalSpent string
  | SummaryFooter
  | NothingToView
  | ViewHeader
  | SavedTo string
  | FailedToSave exn
  | CannotVisualizeEmpty
  | SummaryFailed
  | DisplayingChart
  | BarChart "(cell \<times> number) list"

text \<open>
  The library and the clock, which the program calls and does not define:
  \<^item> \<open>today\<close>: \<^verbatim>\<open>datetime.now().date()\<close>;
  \<^item> \<open>float_py\<close>: Python's \<^verbatim>\<open>float\<close> on text, a float and so never \<open>Whole\<close>
    (\<open>None\<close> is ValueError);
  \<^item> \<open>pd_numeric\<close>: the number pandas reads a text as, \<open>Whole\<close> for an integer
    that fits an int64, and \<open>None\<close> for a text that is no number;
  \<^item> \<open>pd_parse_date\<close>: the Timestamp \<^verbatim>\<open>read_csv\<close> reads a text of a
    \<^verbatim>\<open>parse_dates\<close> column as, in the one format it infers for the column (the first
    argument), and \<open>None\<close> for a text that does not convert;
  \<^item> \<open>pd_datetime\<close> and \<open>pd_epoch\<close>: \<^verbatim>\<open>pd.to_datetime\<close> on a text and on a number;
  \<^item> \<open>repr_float\<close>: \<^verbatim>\<open>repr\<close> of a float, as \<^verbatim>\<open>to_csv\<close> writes it;
  \<^item> \<open>pd_groupby_sum\<close>: the sum \<^verbatim>\<open>groupby(...).sum()\<close> gives for the floats of one
    group, none of them NaN, in row order;
  \<^item> \<open>np_sum\<close>: the sum numpy gives for an array of floats.
\<close>

record env =
  today :: caldate
  float_py :: "string \<Rightarrow> number option"
  pd_numeric :: "string \<Rightarrow> number option"
  pd_parse_date :: "string list \<Rightarrow> string \<Rightarrow> (caldate \<times> clock) option"
  pd_datetime :: "string \<Rightarrow> (caldate \<times> clock) option"
  pd_epoch :: "number \<Rightarrow> (caldate \<times> clock) option"
  repr_float :: "number \<Rightarrow> string"
  pd_groupby_sum :: "number list \<Rightarrow> number"
  np_sum :: "number list \<Rightarrow> number"

record tracker =
  filename :: string
  expenses :: dataframe

section \<open>Text\<close>

definition ascii :: "string \<Rightarrow> bool" where
  "ascii s = list_all (\<lambda>c. (of_char c :: nat) < 128) s"

definition is_space :: "char \<Rightarrow> bool" where
  "is_space c = (of_char c \<in> {9, 10, 11, 12, 13, 28, 29, 30, 31, 32 :: nat})"

definition strip :: "string \<Rightarrow> string" where
  "strip s = rev (dropWhile is_space (rev (dropWhile is_space s)))"

definition upper_char :: "char \<Rightarrow> char" where
  "upper_char c =
     (if 97 \<le> (of_char c :: nat) \<and> (of_char c :: nat) \<le> 122
      then char_of (of_char c - 32 :: nat) else c)"

definition lower_char :: "char \<Rightarrow> char" where
  "lower_char c =
     (if 65 \<le> (of_char c :: nat) \<and> (of_char c :: nat) \<le> 90
      then char_of (of_char c + 32 :: nat) else c)"

definition capitalize :: "string \<Rightarrow> string" where
  "capitalize s = (case s of [] \<Rightarrow> [] | c # cs \<Rightarrow> upper_char c # map lower_char cs)"

subsection \<open>Formatting a float with two decimals\<close>

definition digit_char :: "nat \<Rightarrow> char" where
  "digit_char d = ''0123456789'' ! d"

fun dec :: "nat \<Rightarrow> string" where
  "dec n = (if n < 10 then [digit_char n] else dec (n div 10) @ [digit_char (n mod 10)])"

declare dec.simps [simp del]

fun commas :: "string \<Rightarrow> string" where
  "commas s =
     (if length s \<le> 3 then s
      else commas (take (length s - 3) s) @ '','' @ drop (length s - 3) s)"

declare commas.simps [simp del]

definition round_half_even :: "rat \<Rightarrow> int" where
  "round_half_even x =
     (let f = \<lfloor>x\<rfloor>; r = x - of_int f
      in if r < 1 / 2 then f else if 1 / 2 < r then f + 1 else if even f then f else f + 1)"

text \<open>
  The float64 nearest to an integer (ties to even): Python's \<^verbatim>\<open>float\<close> of an int and
  the conversion of an int64 column to float64. An integer of more than 53 bits is
  rounded to a multiple of the unit \<open>u\<close> of its 53 leading bits. No int64 is out of the
  range of float64.
\<close>

fun bit_length :: "nat \<Rightarrow> nat" where
  "bit_length n = (if n = 0 then 0 else Suc (bit_length (n div 2)))"

declare bit_length.simps [simp del]

definition to_float64 :: "int \<Rightarrow> rat" where
  "to_float64 i =
     (let n = bit_length (nat \<bar>i\<bar>)
      in if n \<le> 53 then of_int i
         else (let u = 2 ^ (n - 53); q = i div u; r = i mod u
               in of_int ((if 2 * r < u then q
                           else if u < 2 * r then q + 1
                           else if even q then q else q + 1) * u)))"

definition is_whole :: "number \<Rightarrow> bool" where
  "is_whole v = (case v of Whole i \<Rightarrow> True | _ \<Rightarrow> False)"

definition whole_of :: "number \<Rightarrow> int" where
  "whole_of v = (case v of Whole i \<Rightarrow> i | _ \<Rightarrow> 0)"

definition as_float :: "number \<Rightarrow> number" where
  "as_float v = (case v of Whole i \<Rightarrow> Fin (to_float64 i) | _ \<Rightarrow> v)"

definition fixed2 :: "bool \<Rightarrow> rat \<Rightarrow> string" where
  "fixed2 grouped q =
     (let n = nat (round_half_even (\<bar>q\<bar> * 100));
          ip = dec (n div 100)
      in (if q < 0 then ''-'' else []) @ (if grouped then commas ip else ip) @ ''.''
         @ [digit_char (n mod 100 div 10), digit_char (n mod 10)])"

text \<open>\<^verbatim>\<open>format(v, ',.2f')\<close> when \<open>grouped\<close>, \<^verbatim>\<open>format(v, '.2f')\<close> otherwise. An
  integer is formatted as the float it converts to.\<close>

definition format_2f :: "bool \<Rightarrow> number \<Rightarrow> string" where
  "format_2f grouped v =
     (case v of
        Fin q \<Rightarrow> fixed2 grouped q
      | PInf \<Rightarrow> ''inf''
      | NInf \<Rightarrow> ''-inf''
      | NaN \<Rightarrow> ''nan''
      | Whole i \<Rightarrow> fixed2 grouped (to_float64 i))"

text \<open>\<^verbatim>\<open>'${:,.2f}'.format\<close>\<close>

definition money :: "number \<Rightarrow> string" where
  "money v = ''$'' @ format_2f True v"

section \<open>Frames\<close>

definition nrows :: "(string \<times> 'a list) list \<Rightarrow> nat" where
  "nrows df = (case df of [] \<Rightarrow> 0 | (c, xs) # rest \<Rightarrow> length xs)"

text \<open>\<^verbatim>\<open>df.empty\<close>: an axis of length zero.\<close>

definition is_empty :: "dataframe \<Rightarrow> bool" where
  "is_empty df = (df = [] \<or> nrows df = 0)"

text \<open>\<^verbatim>\<open>self.columns\<close> and \<^verbatim>\<open>pd.DataFrame(columns=self.columns)\<close>\<close>

definition columns :: "string list" where
  "columns = [''Date'', ''Category'', ''Description'', ''Amount'']"

definition empty_frame :: dataframe where
  "empty_frame = map (\<lambda>c. (c, [])) columns"

text \<open>\<^verbatim>\<open>df[name]\<close>\<close>

definition getitem :: "dataframe \<Rightarrow> string \<Rightarrow> exn + series" where
  "getitem df name = (case map_of df name of None \<Rightarrow> Inl (KeyError name) | Some xs \<Rightarrow> Inr xs)"

text \<open>\<^verbatim>\<open>df[name] = xs\<close>: an existing column is replaced in place, a new one goes last.\<close>

definition setitem :: "dataframe \<Rightarrow> string \<Rightarrow> series \<Rightarrow> dataframe" where
  "setitem df name xs = AList.update name xs df"

definition isna :: "cell \<Rightarrow> bool" where
  "isna c = (c = Num NaN \<or> c = NaT)"

text \<open>
  \<^verbatim>\<open>pd.concat([a, b], ignore_index=True)\<close>: the rows of \<open>b\<close> below the rows of
  \<open>a\<close>; the columns are those of \<open>a\<close>, then the new ones of \<open>b\<close>; a frame that
  lacks a column has NaN there. Where an int64 column meets a float64 column the result
  is float64: every integer becomes the nearest float. Any other pair of columns keeps
  its cells.
\<close>

definition int64_cells :: "series \<Rightarrow> bool" where
  "int64_cells xs =
     (xs \<noteq> [] \<and> list_all (\<lambda>c. case c of Num v \<Rightarrow> is_whole v | _ \<Rightarrow> False) xs)"

definition float64_cells :: "series \<Rightarrow> bool" where
  "float64_cells xs =
     (xs \<noteq> [] \<and> list_all (\<lambda>c. case c of Num v \<Rightarrow> \<not> is_whole v | _ \<Rightarrow> False) xs)"

definition as_float_cell :: "cell \<Rightarrow> cell" where
  "as_float_cell c = (case c of Num v \<Rightarrow> Num (as_float v) | _ \<Rightarrow> c)"

definition concat_columns :: "series \<Rightarrow> series \<Rightarrow> series" where
  "concat_columns xs ys =
     (if int64_cells xs \<and> float64_cells ys then map as_float_cell xs @ ys
      else if float64_cells xs \<and> int64_cells ys then xs @ map as_float_cell ys
      else xs @ ys)"

definition column_or_nan :: "dataframe \<Rightarrow> string \<Rightarrow> series" where
  "column_or_nan df name =
     (case map_of df name of None \<Rightarrow> replicate (nrows df) (Num NaN) | Some xs \<Rightarrow> xs)"

definition concat_frames :: "dataframe \<Rightarrow> dataframe \<Rightarrow> dataframe" where
  "concat_frames a b =
     map (\<lambda>name. (name, concat_columns (column_or_nan a name) (column_or_nan b name)))
       (map fst a @ filter (\<lambda>name. name \<notin> set (map fst a)) (map fst b))"

section \<open>Reading and writing the file\<close>

text \<open>The texts \<^verbatim>\<open>read_csv\<close> takes for a missing value (its default \<^verbatim>\<open>na_values\<close>).\<close>

definition na_values :: "string list" where
  "na_values = ['''', ''#N/A'', ''#N/A N/A'', ''#NA'', ''-1.#IND'', ''-1.#QNAN'', ''-NaN'',
     ''-nan'', ''1.#IND'', ''1.#QNAN'', ''<NA>'', ''N/A'', ''NA'', ''NULL'', ''NaN'', ''None'',
     ''n/a'', ''nan'', ''null'']"

definition is_na_text :: "string \<Rightarrow> bool" where
  "is_na_text s = (s \<in> set na_values)"

text \<open>
  A column without \<^verbatim>\<open>parse_dates\<close>. Missing values become NaN. The column is int64
  when every field is an integer and none is missing, float64 when every field that is
  not missing is a number (an integer among them becomes the nearest float), and text
  otherwise.
\<close>

definition integer_column :: "env \<Rightarrow> string list \<Rightarrow> bool" where
  "integer_column env texts =
     (texts \<noteq> []
      \<and> list_all (\<lambda>f. \<not> is_na_text f
                       \<and> (case pd_numeric env f of Some v \<Rightarrow> is_whole v | None \<Rightarrow> False)) texts)"

definition numeric_column :: "env \<Rightarrow> string list \<Rightarrow> bool" where
  "numeric_column env texts = list_all (\<lambda>f. is_na_text f \<or> pd_numeric env f \<noteq> None) texts"

definition text_cell :: "string \<Rightarrow> cell" where
  "text_cell f = (if is_na_text f then Num NaN else Str f)"

definition convert_column :: "env \<Rightarrow> string list \<Rightarrow> series" where
  "convert_column env texts =
     (if integer_column env texts
      then map (\<lambda>f. case pd_numeric env f of Some v \<Rightarrow> Num v | None \<Rightarrow> Num NaN) texts
      else if numeric_column env texts
      then map (\<lambda>f. if is_na_text f then Num NaN
                     else (case pd_numeric env f of
                             Some v \<Rightarrow> Num (as_float v)
                           | None \<Rightarrow> Num NaN)) texts
      else map text_cell texts)"

text \<open>
  A \<^verbatim>\<open>parse_dates\<close> column is read as text, with NaN for a missing value, and then
  converted: to Timestamps (NaT for a missing value) when every other field converts in
  the format inferred for the column; a column that does not convert is left as the text
  it was read as.
\<close>

definition convert_dates :: "env \<Rightarrow> string list \<Rightarrow> series" where
  "convert_dates env texts =
     (if list_all (\<lambda>f. is_na_text f \<or> pd_parse_date env texts f \<noteq> None) texts
      then map (\<lambda>f. if is_na_text f then NaT
                     else (case pd_parse_date env texts f of
                             Some (d, c) \<Rightarrow> Stamp d c
                           | None \<Rightarrow> NaT)) texts
      else map text_cell texts)"

text \<open>\<^verbatim>\<open>pd.read_csv(filename, parse_dates=['Date'])\<close>; a table without a \<^verbatim>\<open>Date\<close>
  column is a ValueError.\<close>

definition read_csv :: "env \<Rightarrow> disk_file \<Rightarrow> exn + dataframe" where
  "read_csv env f =
     (case f of
        EmptyFile \<Rightarrow> Inl EmptyDataError
      | Unparsable \<Rightarrow> Inl ParserError
      | Csv table \<Rightarrow>
          if ''Date'' \<notin> set (map fst table) then Inl ValueError
          else Inr (map (\<lambda>(name, texts).
                 (name, if name = ''Date'' then convert_dates env texts
                        else convert_column env texts)) table))"

text \<open>\<^verbatim>\<open>pd.to_numeric(col, errors='coerce')\<close>. A numeric column is returned as it is.
  A column of text is one that holds a text that is no number, so the result has a NaN
  and is float64. \<^verbatim>\<open>read_csv\<close> leaves dates in the \<^verbatim>\<open>Date\<close> column only, so the
  last three cases are not reached from the program.\<close>

fun to_numeric_coerce :: "env \<Rightarrow> cell \<Rightarrow> cell" where
  "to_numeric_coerce env (Num v) = Num v"
| "to_numeric_coerce env (Str s) =
     (case pd_numeric env s of Some v \<Rightarrow> Num (as_float v) | None \<Rightarrow> Num NaN)"
| "to_numeric_coerce env (Day d) = Num NaN"
| "to_numeric_coerce env (Stamp d c) = Num NaN"
| "to_numeric_coerce env NaT = Num NaN"

definition two_digits :: "nat \<Rightarrow> string" where
  "two_digits n = (if n < 10 then ''0'' @ dec n else dec n)"

definition four_digits :: "nat \<Rightarrow> string" where
  "four_digits n = replicate (4 - length (dec n)) CHR ''0'' @ dec n"

text \<open>\<^verbatim>\<open>str\<close> of a \<^verbatim>\<open>datetime.date\<close>\<close>

definition iso_date :: "caldate \<Rightarrow> string" where
  "iso_date d = four_digits (year d) @ ''-'' @ two_digits (month d) @ ''-'' @ two_digits (day d)"

definition iso_clock :: "clock \<Rightarrow> string" where
  "iso_clock c = two_digits (hour c) @ '':'' @ two_digits (minute c) @ '':'' @ two_digits (second c)"

text \<open>\<^verbatim>\<open>str\<close> of an int\<close>

definition int_text :: "int \<Rightarrow> string" where
  "int_text i = (if i < 0 then ''-'' else []) @ dec (nat \<bar>i\<bar>)"

text \<open>One field as \<^verbatim>\<open>to_csv\<close> writes it: a missing value is the empty text.\<close>

fun csv_field :: "env \<Rightarrow> cell \<Rightarrow> string" where
  "csv_field env (Str s) = s"
| "csv_field env (Num v) =
     (case v of NaN \<Rightarrow> [] | Whole i \<Rightarrow> int_text i | _ \<Rightarrow> repr_float env v)"
| "csv_field env (Day d) = iso_date d"
| "csv_field env (Stamp d c) = iso_date d @ '' '' @ iso_clock c"
| "csv_field env NaT = []"

text \<open>\<^verbatim>\<open>df.to_csv(filename, index=False)\<close>\<close>

definition to_csv :: "env \<Rightarrow> dataframe \<Rightarrow> disk_file" where
  "to_csv env df = Csv (map (\<lambda>(name, xs). (name, map (csv_field env) xs)) df)"

section \<open>The tracker\<close>

subsection \<open>\<^verbatim>\<open>__init__\<close>\<close>

text \<open>
  The disk maps a path to its file; \<open>None\<close> is a path that does not exist. The result is
  what was printed, and the exception that left the constructor or the new tracker.
  The assignment of line 35 is outside the \<^verbatim>\<open>try\<close>.
\<close>

definition init :: "env \<Rightarrow> (string \<rightharpoonup> disk_file) \<Rightarrow> string \<Rightarrow> msg list \<times> (exn + tracker)" where
  "init env disk name =
     (let (out, df) =
        (case disk name of
           Some f \<Rightarrow>
             (case read_csv env f of
                Inr df \<Rightarrow> ([LoadedRecords (nrows df)], df)
              | Inl EmptyDataError \<Rightarrow> ([CsvFileEmpty], empty_frame)
              | Inl e \<Rightarrow> ([ErrorLoadingCsv e], empty_frame))
         | None \<Rightarrow> ([NoExistingFile], empty_frame))
      in case getitem df ''Amount'' of
           Inl e \<Rightarrow> (out, Inl e)
         | Inr col \<Rightarrow>
             (out, Inr \<lparr>filename = name,
                        expenses = setitem df ''Amount'' (map (to_numeric_coerce env) col)\<rparr>))"

subsection \<open>\<^verbatim>\<open>add_expense\<close>\<close>

text \<open>\<^verbatim>\<open><=\<close> on numbers: false when either side is NaN.\<close>

definition extended :: "number \<Rightarrow> (nat \<times> rat) option" where
  "extended v =
     (case v of
        NaN \<Rightarrow> None
      | NInf \<Rightarrow> Some (0, 0)
      | Fin q \<Rightarrow> Some (1, q)
      | Whole i \<Rightarrow> Some (1, of_int i)
      | PInf \<Rightarrow> Some (2, 0))"

definition fle :: "number \<Rightarrow> number \<Rightarrow> bool" where
  "fle x y = (case (extended x, extended y) of (Some a, Some b) \<Rightarrow> a \<le> b | _ \<Rightarrow> False)"

definition new_expense :: "env \<Rightarrow> string \<Rightarrow> string \<Rightarrow> number \<Rightarrow> dataframe" where
  "new_expense env category description amount =
     [(''Date'', [Day (today env)]),
      (''Category'', [Str (capitalize (strip category))]),
      (''Description'', [Str (strip description)]),
      (''Amount'', [Num amount])]"

text \<open>
  The arguments are the three texts \<^verbatim>\<open>main\<close> reads with \<^verbatim>\<open>input\<close>. Nothing but
  \<^verbatim>\<open>float\<close> raises in the \<^verbatim>\<open>try\<close> block on such arguments, so the last handler has
  no branch here.
\<close>

definition add_expense :: "env \<Rightarrow> tracker \<Rightarrow> string \<Rightarrow> string \<Rightarrow> string \<Rightarrow> msg list \<times> tracker" where
  "add_expense env t category description amount =
     (case float_py env amount of
        None \<Rightarrow> ([InvalidAmount], t)
      | Some a \<Rightarrow>
          if fle a (Fin 0) then ([AmountMustBePositive], t)
          else ([AddedExpense category description (format_2f False a)],
                t\<lparr>expenses := concat_frames (expenses t) (new_expense env category description a)\<rparr>))"

subsection \<open>Sums by category\<close>

text \<open>An int64 sum wraps around.\<close>

definition wrap64 :: "int \<Rightarrow> int" where
  "wrap64 i = (i + 2 ^ 63) mod 2 ^ 64 - 2 ^ 63"

definition int64_series :: "number list \<Rightarrow> bool" where
  "int64_series vs = (vs \<noteq> [] \<and> list_all is_whole vs)"

definition int64_sum :: "number list \<Rightarrow> number" where
  "int64_sum vs = Whole (wrap64 (sum_list (map whole_of vs)))"

text \<open>
  The sum of one group of \<^verbatim>\<open>groupby(...).sum()\<close>: of integers when the column is int64
  (\<open>ints\<close>), and otherwise of the floats of the group that are not NaN.
\<close>

definition group_sum :: "env \<Rightarrow> bool \<Rightarrow> number list \<Rightarrow> number" where
  "group_sum env ints vs =
     (if ints then int64_sum vs
      else pd_groupby_sum env (filter (\<lambda>v. v \<noteq> NaN) (map as_float vs)))"

text \<open>\<^verbatim>\<open>Series.sum()\<close>: pandas puts zero for NaN and takes the sum of numpy.\<close>

definition series_sum :: "env \<Rightarrow> number list \<Rightarrow> number" where
  "series_sum env vs =
     (if int64_series vs then int64_sum vs
      else np_sum env (map (\<lambda>v. if v = NaN then Fin 0 else as_float v) vs))"

text \<open>The numbers of a numeric column. Every \<^verbatim>\<open>Amount\<close> column the program builds is
  numeric; on any other the model raises TypeError.\<close>

definition is_number :: "cell \<Rightarrow> bool" where
  "is_number c = (case c of Num v \<Rightarrow> True | _ \<Rightarrow> False)"

definition num_of :: "cell \<Rightarrow> number" where
  "num_of c = (case c of Num v \<Rightarrow> v | _ \<Rightarrow> NaN)"

definition floats_of :: "series \<Rightarrow> exn + number list" where
  "floats_of col = (if list_all is_number col then Inr (map num_of col) else Inl TypeError)"

text \<open>The order of the group keys (\<^verbatim>\<open>groupby\<close> sorts them): numbers before text, text
  by character code.\<close>

definition key_rank :: "cell \<Rightarrow> nat \<times> rat \<times> string" where
  "key_rank c =
     (case c of
        Num NInf \<Rightarrow> (0, 0, [])
      | Num (Fin q) \<Rightarrow> (1, q, [])
      | Num (Whole i) \<Rightarrow> (1, of_int i, [])
      | Num PInf \<Rightarrow> (2, 0, [])
      | Str s \<Rightarrow> (3, 0, s)
      | Day d \<Rightarrow> (4, of_nat (year d * 10000 + month d * 100 + day d), [])
      | Stamp d k \<Rightarrow> (5, of_nat (year d * 10000 + month d * 100 + day d),
                       two_digits (hour k) @ two_digits (minute k) @ two_digits (second k))
      | _ \<Rightarrow> (6, 0, []))"

text \<open>\<^verbatim>\<open>groupby(key)[value].sum()\<close>: one group for each key that is not missing.\<close>

definition groupby_sum :: "env \<Rightarrow> series \<Rightarrow> number list \<Rightarrow> (cell \<times> number) list" where
  "groupby_sum env keys vals =
     map (\<lambda>k. (k, group_sum env (int64_series vals)
                     (map snd (filter (\<lambda>kv. fst kv = k) (zip keys vals)))))
       (sort_key key_rank (remdups (filter (\<lambda>k. \<not> isna k) keys)))"

definition total_rank :: "number \<Rightarrow> nat \<times> rat" where
  "total_rank v =
     (case v of
        NaN \<Rightarrow> (0, 0)
      | NInf \<Rightarrow> (1, 0)
      | Fin q \<Rightarrow> (2, q)
      | Whole i \<Rightarrow> (2, of_int i)
      | PInf \<Rightarrow> (3, 0))"

text \<open>\<^verbatim>\<open>.sort_values(ascending=False)\<close>: pandas reverses, sorts ascending and reverses
  again; NaN goes last. The sort is taken stable; numpy does not promise an order among
  equal totals.\<close>

definition sort_values_desc :: "(cell \<times> number) list \<Rightarrow> (cell \<times> number) list" where
  "sort_values_desc xs = rev (sort_key (\<lambda>kv. total_rank (snd kv)) (rev xs))"

text \<open>\<^verbatim>\<open>self.expenses.groupby('Category')['Amount'].sum().sort_values(ascending=False)\<close>\<close>

definition category_totals :: "env \<Rightarrow> dataframe \<Rightarrow> exn + (cell \<times> number) list" where
  "category_totals env df =
     (case getitem df ''Category'' of
        Inl e \<Rightarrow> Inl e
      | Inr keys \<Rightarrow>
          (case getitem df ''Amount'' of
             Inl e \<Rightarrow> Inl e
           | Inr col \<Rightarrow>
               (case floats_of col of
                  Inl e \<Rightarrow> Inl e
                | Inr vals \<Rightarrow> Inr (sort_values_desc (groupby_sum env keys vals)))))"

text \<open>\<^verbatim>\<open>self.expenses['Amount'].sum()\<close>\<close>

definition grand_total :: "env \<Rightarrow> dataframe \<Rightarrow> exn + number" where
  "grand_total env df =
     (case getitem df ''Amount'' of
        Inl e \<Rightarrow> Inl e
      | Inr col \<Rightarrow>
          (case floats_of col of Inl e \<Rightarrow> Inl e | Inr vals \<Rightarrow> Inr (series_sum env vals)))"

subsection \<open>\<^verbatim>\<open>summarize_by_category\<close>\<close>

text \<open>\<^verbatim>\<open>.reset_index()\<close>, then line 77, which overwrites the \<^verbatim>\<open>Amount\<close> column with
  the formatted texts.\<close>

definition summary_frame :: "(cell \<times> number) list \<Rightarrow> dataframe" where
  "summary_frame totals =
     setitem [(''Category'', map fst totals), (''Amount'', map (\<lambda>kv. Num (snd kv)) totals)]
       ''Amount'' (map (\<lambda>kv. Str (money (snd kv))) totals)"

text \<open>The result is what was printed, and the exception or the tracker with the value
  returned (\<open>None\<close> is Python's \<^verbatim>\<open>None\<close>).\<close>

definition summarize_by_category ::
  "env \<Rightarrow> tracker \<Rightarrow> msg list \<times> (exn + tracker \<times> dataframe option)" where
  "summarize_by_category env t =
     (if is_empty (expenses t) then ([NothingToSummarize], Inr (t, None))
      else
        (case category_totals env (expenses t) of
           Inl e \<Rightarrow> ([], Inl e)
         | Inr totals \<Rightarrow>
             (let category_summary = summary_frame totals
              in case grand_total env (expenses t) of
                   Inl e \<Rightarrow> ([], Inl e)
                 | Inr total_spent \<Rightarrow>
                     ([SummaryHeader, Table category_summary, Rule, TotalSpent (money total_spent),
                       SummaryFooter],
                      Inr (t, Some category_summary)))))"

subsection \<open>\<^verbatim>\<open>view_all_expenses\<close>\<close>

definition view_all_expenses :: "tracker \<Rightarrow> msg list \<times> (exn + tracker)" where
  "view_all_expenses t =
     (if is_empty (expenses t) then ([NothingToView], Inr t)
      else
        (let df_display = expenses t
         in case getitem df_display ''Amount'' of
              Inl e \<Rightarrow> ([ViewHeader], Inl e)
            | Inr col \<Rightarrow>
                (case floats_of col of
                   Inl e \<Rightarrow> ([ViewHeader], Inl e)
                 | Inr vals \<Rightarrow>
                     ([ViewHeader,
                       Table (setitem df_display ''Amount'' (map (\<lambda>v. Str (money v)) vals))],
                      Inr t))))"

subsection \<open>\<^verbatim>\<open>save_expenses\<close>\<close>

text \<open>
  \<^verbatim>\<open>pd.to_datetime\<close> on one cell; \<open>None\<close> when it raises. Text and numbers go to the
  parsers of pandas.
\<close>

fun to_datetime :: "env \<Rightarrow> cell \<Rightarrow> cell option" where
  "to_datetime env (Day d) = Some (Stamp d (Clock 0 0 0))"
| "to_datetime env (Stamp d c) = Some (Stamp d c)"
| "to_datetime env NaT = Some NaT"
| "to_datetime env (Num v) =
     (if v = NaN then Some NaT
      else (case pd_epoch env v of Some (d, c) \<Rightarrow> Some (Stamp d c) | None \<Rightarrow> None))"
| "to_datetime env (Str s) =
     (case pd_datetime env s of Some (d, c) \<Rightarrow> Some (Stamp d c) | None \<Rightarrow> None)"

text \<open>\<^verbatim>\<open>.dt.date\<close>\<close>

fun dt_date :: "cell \<Rightarrow> cell" where
  "dt_date (Stamp d c) = Day d"
| "dt_date x = x"

text \<open>
  \<open>io_ok\<close> says whether writing the file succeeds. The result is what was printed, the
  tracker and the disk. A failed write leaves the disk as it was (partial writes are not
  modelled).
\<close>

definition save_expenses ::
  "env \<Rightarrow> bool \<Rightarrow> (string \<rightharpoonup> disk_file) \<Rightarrow> tracker
     \<Rightarrow> msg list \<times> tracker \<times> (string \<rightharpoonup> disk_file)" where
  "save_expenses env io_ok disk t =
     (case getitem (expenses t) ''Date'' of
        Inl e \<Rightarrow> ([FailedToSave e], t, disk)
      | Inr col \<Rightarrow>
          if \<exists>c \<in> set col. to_datetime env c = None then ([FailedToSave ValueError], t, disk)
          else
            (let t' = t\<lparr>expenses :=
                         setitem (expenses t) ''Date''
                           (map (\<lambda>c. dt_date (the (to_datetime env c))) col)\<rparr>
             in if io_ok
                then ([SavedTo (filename t)], t', disk(filename t \<mapsto> to_csv env (expenses t')))
                else ([FailedToSave OSError], t', disk)))"

subsection \<open>\<^verbatim>\<open>visualize_expenses\<close>\<close>

definition visualize_expenses :: "env \<Rightarrow> tracker \<Rightarrow> msg list \<times> (exn + tracker)" where
  "visualize_expenses env t =
     (if is_empty (expenses t) then ([CannotVisualizeEmpty], Inr t)
      else
        (case category_totals env (expenses t) of
           Inl e \<Rightarrow> ([], Inl e)
         | Inr summary \<Rightarrow>
             if summary = [] then ([SummaryFailed], Inr t)
             else ([DisplayingChart, BarChart summary], Inr t)))"

section \<open>The ledger as a sequence of records\<close>

text \<open>
  The records of a frame, in row order: the cells of the four columns of the ledger.
  A column the frame lacks reads as NaN, as it does after the next \<^verbatim>\<open>pd.concat\<close>.
\<close>

definition records :: "dataframe \<Rightarrow> (cell \<times> cell \<times> cell \<times> cell) list" where
  "records df =
     zip (column_or_nan df ''Date'') (zip (column_or_nan df ''Category'')
       (zip (column_or_nan df ''Description'') (column_or_nan df ''Amount'')))"

text \<open>A frame is rectangular when its columns have one length.\<close>

definition rectangular :: "(string \<times> 'a list) list \<Rightarrow> bool" where
  "rectangular df = (\<forall>col \<in> set (map snd df). length col = nrows df)"

text \<open>A ledger: a rectangular frame with the four columns, whose amounts are numbers.\<close>

definition ledger :: "dataframe \<Rightarrow> bool" where
  "ledger df =
     (rectangular df \<and> set columns \<subseteq> set (map fst df)
      \<and> (\<forall>c \<in> set (column_or_nan df ''Amount''). is_number c))"

section \<open>Notions of the specification\<close>

text \<open>A float strictly greater than zero (\<^verbatim>\<open>0 < v\<close>).\<close>

definition positive :: "number \<Rightarrow> bool" where
  "positive v = (case v of Fin q \<Rightarrow> 0 < q | PInf \<Rightarrow> True | _ \<Rightarrow> False)"

text \<open>The amount of a loaded row whose text is \<open>f\<close>, in the column \<open>texts\<close>: the
  number it reads as (a float, unless the whole column is of integers), NaN when it reads
  as none.\<close>

definition coerced_amount :: "env \<Rightarrow> string list \<Rightarrow> string \<Rightarrow> cell" where
  "coerced_amount env texts f =
     (if is_na_text f then Num NaN
      else (case pd_numeric env f of
              Some v \<Rightarrow> if integer_column env texts then Num v else Num (as_float v)
            | None \<Rightarrow> Num NaN))"

text \<open>The amount of a record that was there, after a float is added below it: the float
  nearest to it when the amounts were integers, and the amount itself otherwise.\<close>

definition amount_after_add :: "dataframe \<Rightarrow> cell \<Rightarrow> cell" where
  "amount_after_add df x =
     (if int64_cells (column_or_nan df ''Amount'') then as_float_cell x else x)"

text \<open>The names of the columns of a table with the number of rows of each.\<close>

definition shape :: "(string \<times> 'a list) list \<Rightarrow> (string \<times> nat) list" where
  "shape df = map (\<lambda>(name, xs). (name, length xs)) df"

text \<open>An amount as currency text.\<close>

definition amount_text :: "cell \<Rightarrow> cell" where
  "amount_text c = Str (money (num_of c))"

text \<open>The calendar date of a date cell, and whether every date of a frame converts.\<close>

definition calendar_date :: "env \<Rightarrow> cell \<Rightarrow> cell" where
  "calendar_date env c = dt_date (the (to_datetime env c))"

definition dates_convert :: "env \<Rightarrow> dataframe \<Rightarrow> bool" where
  "dates_convert env df =
     (case map_of df ''Date'' of
        None \<Rightarrow> False
      | Some col \<Rightarrow> list_all (\<lambda>c. to_datetime env c \<noteq> None) col)"

text \<open>The categories of the records, the amounts of the records of one category, and
  the amounts of all records.\<close>

definition categories :: "dataframe \<Rightarrow> cell list" where
  "categories df = map (\<lambda>(d, c, s, a). c) (records df)"

definition amounts_of_category :: "dataframe \<Rightarrow> cell \<Rightarrow> number list" where
  "amounts_of_category df k =
     map (\<lambda>(d, c, s, a). num_of a) (filter (\<lambda>(d, c, s, a). c = k) (records df))"

definition all_amounts :: "dataframe \<Rightarrow> number list" where
  "all_amounts df = map (\<lambda>(d, c, s, a). num_of a) (records df)"

text \<open>The totals as a frame of numbers, and as the frame of formatted texts.\<close>

definition numeric_summary :: "(cell \<times> number) list \<Rightarrow> dataframe" where
  "numeric_summary totals =
     [(''Category'', map fst totals), (''Amount'', map (\<lambda>kv. Num (snd kv)) totals)]"

definition formatted_summary :: "(cell \<times> number) list \<Rightarrow> dataframe" where
  "formatted_summary totals =
     [(''Category'', map fst totals), (''Amount'', map (\<lambda>kv. Str (money (snd kv))) totals)]"

section \<open>Example inputs\<close>

text \<open>The sum of numbers with no rounding: the sum of pandas and of numpy wherever every
  partial sum is a float, as in the examples.\<close>

fun fadd :: "number \<Rightarrow> number \<Rightarrow> number" where
  "fadd (Fin a) (Fin b) = Fin (a + b)"
| "fadd NaN y = NaN"
| "fadd x NaN = NaN"
| "fadd (Whole i) y = NaN"
| "fadd x (Whole j) = NaN"
| "fadd (Fin a) y = y"
| "fadd x (Fin b) = x"
| "fadd PInf PInf = PInf"
| "fadd NInf NInf = NInf"
| "fadd PInf NInf = NaN"
| "fadd NInf PInf = NaN"

definition exact_sum :: "number list \<Rightarrow> number" where
  "exact_sum vs = foldl fadd (Fin 0) vs"

text \<open>An environment that answers as Python and pandas do on the texts and values the
  examples use: the day is 2024-01-15.\<close>

definition demo_env :: env where
  "demo_env =
     \<lparr>today = Date 2024 1 15,
      float_py = (\<lambda>s. if s = ''5'' then Some (Fin 5)
                     else if s = ''12.5'' then Some (Fin (25 / 2))
                     else if s = ''-3'' then Some (Fin (- 3))
                     else if s = ''0'' then Some (Fin 0)
                     else if s = ''nan'' then Some NaN
                     else None),
      pd_numeric = (\<lambda>s. if s = ''5.0'' then Some (Fin 5)
                     else if s = ''12.5'' then Some (Fin (25 / 2))
                     else if s = ''9007199254740993'' then Some (Whole 9007199254740993)
                     else if s = ''9223372036854775807'' then Some (Whole 9223372036854775807)
                     else None),
      pd_parse_date = (\<lambda>texts s.
                     if s = ''2024-01-15'' then Some (Date 2024 1 15, Clock 0 0 0) else None),
      pd_datetime = (\<lambda>s. if s = ''2024-01-15'' then Some (Date 2024 1 15, Clock 0 0 0)
                     else if s = ''2024-01-15 13:45:00'' then Some (Date 2024 1 15, Clock 13 45 0)
                     else None),
      pd_epoch = (\<lambda>v. Some (Date 1970 1 1, Clock 0 0 0)),
      repr_float = (\<lambda>v. if v = Fin 5 then ''5.0''
                     else if v = Fin (25 / 2) then ''12.5''
                     else format_2f False v),
      pd_groupby_sum = exact_sum,
      np_sum = exact_sum\<rparr>"

definition new_tracker :: tracker where
  "new_tracker = \<lparr>filename = ''expenses.csv'', expenses = empty_frame\<rparr>"

definition food_rent :: tracker where
  "food_rent =
     \<lparr>filename = ''expenses.csv'',
      expenses =
        [(''Date'', [Day (Date 2024 1 10), Day (Date 2024 1 11), Day (Date 2024 1 12)]),
         (''Category'', [Str ''Food'', Str ''Food'', Str ''Rent'']),
         (''Description'', [Str ''lunch'', Str ''coffee'', Str ''january'']),
         (''Amount'', [Num (Fin 10), Num (Fin 5), Num (Fin 800)])]\<rparr>"

definition rent_paid :: tracker where
  "rent_paid =
     \<lparr>filename = ''expenses.csv'',
      expenses =
        [(''Date'', [Day (Date 2024 1 10), Day (Date 2024 1 11)]),
         (''Category'', [Str ''Food'', Str ''Rent'']),
         (''Description'', [Str ''lunch'', Str ''january'']),
         (''Amount'', [Num (Fin (25 / 2)), Num (Fin (2469 / 2))])]\<rparr>"

text \<open>A ledger loaded from a file whose one row has a time of day.\<close>

definition stamped :: tracker where
  "stamped =
     \<lparr>filename = ''expenses.csv'',
      expenses =
        [(''Date'', [Stamp (Date 2024 1 15) (Clock 13 45 0)]),
         (''Category'', [Str ''Food'']),
         (''Description'', [Str ''lunch'']),
         (''Amount'', [Num (Fin 5)])]\<rparr>"

text \<open>A ledger loaded from a file whose one row has an empty category.\<close>

definition uncategorised :: tracker where
  "uncategorised =
     \<lparr>filename = ''expenses.csv'',
      expenses =
        [(''Date'', [Stamp (Date 2024 1 15) (Clock 0 0 0)]),
         (''Category'', [Num NaN]),
         (''Description'', [Str ''lunch'']),
         (''Amount'', [Num (Fin 5)])]\<rparr>"

text \<open>A disk whose file has no \<^verbatim>\<open>Amount\<close> column, and one whose file has amounts
  that are not numbers.\<close>

definition no_amount_disk :: "string \<rightharpoonup> disk_file" where
  "no_amount_disk =
     [''expenses.csv'' \<mapsto>
        Csv [(''Date'', [''2024-01-15'']), (''Category'', [''Food'']),
             (''Description'', [''lunch''])]]"

definition odd_amounts_disk :: "string \<rightharpoonup> disk_file" where
  "odd_amounts_disk =
     [''expenses.csv'' \<mapsto>
        Csv [(''Date'', [''2024-01-15'', ''2024-01-15'', ''2024-01-15'']),
             (''Category'', [''Food'', ''Food'', ''Rent'']),
             (''Description'', [''lunch'', ''coffee'', ''january'']),
             (''Amount'', [''12.5'', ''twelve'', ''''])]]"

text \<open>A ledger with an amount that is NaN.\<close>

definition with_missing :: tracker where
  "with_missing =
     \<lparr>filename = ''expenses.csv'',
      expenses =
        [(''Date'', [Day (Date 2024 1 10), Day (Date 2024 1 11), Day (Date 2024 1 12)]),
         (''Category'', [Str ''Food'', Str ''Food'', Str ''Food'']),
         (''Description'', [Str ''lunch'', Str ''coffee'', Str ''dinner'']),
         (''Amount'', [Num (Fin 10), Num NaN, Num (Fin 5)])]\<rparr>"

text \<open>Two disks whose file has amounts that are integers: one amount above \<open>2^53\<close>,
  and two amounts whose sum is above \<open>2^63\<close>.\<close>

definition big_amount_disk :: "string \<rightharpoonup> disk_file" where
  "big_amount_disk =
     [''expenses.csv'' \<mapsto>
        Csv [(''Date'', [''2024-01-15'']), (''Category'', [''Rent'']),
             (''Description'', [''tower'']), (''Amount'', [''9007199254740993''])]]"

definition big_amount :: tracker where
  "big_amount =
     \<lparr>filename = ''expenses.csv'',
      expenses =
        [(''Date'', [Stamp (Date 2024 1 15) (Clock 0 0 0)]),
         (''Category'', [Str ''Rent'']),
         (''Description'', [Str ''tower'']),
         (''Amount'', [Num (Whole 9007199254740993)])]\<rparr>"

definition overflow_disk :: "string \<rightharpoonup> disk_file" where
  "overflow_disk =
     [''expenses.csv'' \<mapsto>
        Csv [(''Date'', [''2024-01-15'', ''2024-01-15'']),
             (''Category'', [''Rent'', ''Rent'']),
             (''Description'', [''tower'', ''bridge'']),
             (''Amount'', [''9223372036854775807'', ''9223372036854775807''])]]"

definition overflowing :: tracker where
  "overflowing =
     \<lparr>filename = ''expenses.csv'',
      expenses =
        [(''Date'', [Stamp (Date 2024 1 15) (Clock 0 0 0), Stamp (Date 2024 1 15) (Clock 0 0 0)]),
         (''Category'', [Str ''Rent'', Str ''Rent'']),
         (''Description'', [Str ''tower'', Str ''bridge'']),
         (''Amount'', [Num (Whole 9223372036854775807), Num (Whole 9223372036854775807)])]\<rparr>"

text \<open>One expense with an empty description, added to a new ledger, and the disk after
  saving it.\<close>

definition one_expense :: tracker where
  "one_expense = snd (add_expense demo_env new_tracker ''food'' [] ''5'')"

definition saved_disk :: "string \<rightharpoonup> disk_file" where
  "saved_disk = snd (snd (save_expenses demo_env True Map.empty one_expense))"

section \<open>Frames: columns, rows and records\<close>

lemma map_of_map_key:
  "map_of (map (\<lambda>k. (k, f k)) ks) k = (if k \<in> set ks then Some (f k) else None)"
  by (induction ks) auto

lemma map_of_concat_frames:
  "map_of (concat_frames a b) name =
     (if name \<in> set (map fst a) \<or> name \<in> set (map fst b)
      then Some (concat_columns (column_or_nan a name) (column_or_nan b name)) else None)"
  unfolding concat_frames_def by (subst map_of_map_key) auto

lemma length_concat_columns: "length (concat_columns xs ys) = length xs + length ys"
  by (simp add: concat_columns_def)

lemma concat_columns_text:
  "\<not> is_number y \<Longrightarrow> concat_columns xs [y] = xs @ [y]"
  by (cases y) (simp_all add: concat_columns_def float64_cells_def int64_cells_def is_number_def)

lemma concat_columns_float:
  "\<not> is_whole a \<Longrightarrow>
     concat_columns xs [Num a] = (if int64_cells xs then map as_float_cell xs else xs) @ [Num a]"
  by (simp add: concat_columns_def float64_cells_def int64_cells_def)

lemma length_column_or_nan:
  "rectangular df \<Longrightarrow> length (column_or_nan df name) = nrows df"
  unfolding column_or_nan_def rectangular_def
  by (auto split: option.splits dest!: map_of_SomeD)

lemma column_new_expense:
  "column_or_nan (new_expense env c d a) ''Date'' = [Day (today env)]"
  "column_or_nan (new_expense env c d a) ''Category'' = [Str (capitalize (strip c))]"
  "column_or_nan (new_expense env c d a) ''Description'' = [Str (strip d)]"
  "column_or_nan (new_expense env c d a) ''Amount'' = [Num a]"
  by (simp_all add: column_or_nan_def new_expense_def)

lemma column_concat_new_expense:
  assumes "name \<in> set columns"
  shows "column_or_nan (concat_frames df (new_expense env c d a)) name =
         concat_columns (column_or_nan df name) (column_or_nan (new_expense env c d a) name)"
  using assms
  by (subst column_or_nan_def) (auto simp: map_of_concat_frames new_expense_def columns_def)

lemma zip_amounts_map:
  "length ds = length ks \<Longrightarrow> length ss = length ks \<Longrightarrow> length as = length ks \<Longrightarrow>
   zip ds (zip ks (zip ss (map g as))) =
     map (\<lambda>(d, c, s, a). (d, c, s, g a)) (zip ds (zip ks (zip ss as)))"
  by (simp add: zip_map2 case_prod_beta)

lemma records_concat_new_expense:
  assumes "rectangular df" and "\<not> is_whole a"
  shows "records (concat_frames df (new_expense env c d a)) =
         map (\<lambda>(d, c, s, x). (d, c, s, amount_after_add df x)) (records df)
         @ [(Day (today env), Str (capitalize (strip c)), Str (strip d), Num a)]"
proof -
  have len: "\<And>name. length (column_or_nan df name) = nrows df"
    using assms(1) by (rule length_column_or_nan)
  have am: "(if int64_cells (column_or_nan df ''Amount'')
             then map as_float_cell (column_or_nan df ''Amount'')
             else column_or_nan df ''Amount'') =
            map (amount_after_add df) (column_or_nan df ''Amount'')"
  proof (cases "int64_cells (column_or_nan df ''Amount'')")
    case True
    then show ?thesis by (simp add: amount_after_add_def)
  next
    case False
    then have "amount_after_add df = (\<lambda>x. x)" by (simp add: amount_after_add_def fun_eq_iff)
    then show ?thesis using False by simp
  qed
  let ?new = "concat_frames df (new_expense env c d a)"
  have cols: "column_or_nan ?new ''Date'' = column_or_nan df ''Date'' @ [Day (today env)]"
    "column_or_nan ?new ''Category'' =
       column_or_nan df ''Category'' @ [Str (capitalize (strip c))]"
    "column_or_nan ?new ''Description'' = column_or_nan df ''Description'' @ [Str (strip d)]"
    "column_or_nan ?new ''Amount'' =
       map (amount_after_add df) (column_or_nan df ''Amount'') @ [Num a]"
    using am
    by (simp_all add: column_concat_new_expense columns_def column_new_expense
        concat_columns_text concat_columns_float[OF assms(2)] is_number_def)
  show ?thesis
    unfolding records_def cols by (simp add: len zip_map2 case_prod_beta)
qed

lemma nrows_setitem:
  "map_of df k = Some old \<Longrightarrow> length v = length old \<Longrightarrow> nrows (setitem df k v) = nrows df"
  unfolding nrows_def setitem_def by (cases df) (auto split: if_splits)

lemma column_setitem_other:
  "name \<noteq> k \<Longrightarrow> map_of df k = Some old \<Longrightarrow> length v = length old \<Longrightarrow>
     column_or_nan (setitem df k v) name = column_or_nan df name"
  using nrows_setitem[of df k old v]
  by (simp add: column_or_nan_def setitem_def update_conv' split: option.splits)

lemma column_setitem_same: "column_or_nan (setitem df k v) k = v"
  by (simp add: column_or_nan_def setitem_def update_conv')

lemma records_setitem_amount:
  assumes "map_of df ''Amount'' = Some col"
  shows "records (setitem df ''Amount'' (map g col)) =
         map (\<lambda>(d, c, s, a). (d, c, s, g a)) (records df)"
proof -
  have a: "column_or_nan df ''Amount'' = col" using assms by (simp add: column_or_nan_def)
  show ?thesis
    unfolding records_def
    by (simp add: column_setitem_other[OF _ assms] column_setitem_same a zip_map2 case_prod_beta)
qed

lemma records_setitem_date:
  assumes "map_of df ''Date'' = Some col"
  shows "records (setitem df ''Date'' (map g col)) =
         map (\<lambda>(d, c, s, a). (g d, c, s, a)) (records df)"
proof -
  have a: "column_or_nan df ''Date'' = col" using assms by (simp add: column_or_nan_def)
  show ?thesis
    unfolding records_def
    by (simp add: column_setitem_other[OF _ assms] column_setitem_same a zip_map1 case_prod_beta)
qed

lemma shape_setitem:
  "map_of df k = Some old \<Longrightarrow> length v = length old \<Longrightarrow> shape (setitem df k v) = shape df"
  unfolding shape_def setitem_def by (induction df) (auto split: if_splits)

lemma rectangular_shape:
  "rectangular df \<longleftrightarrow>
     (\<forall>k \<in> set (map snd (shape df)). k = (case shape df of [] \<Rightarrow> 0 | (c, k) # rest \<Rightarrow> k))"
  by (cases df) (auto simp: rectangular_def shape_def nrows_def)

lemma map_fst_shape: "map fst (shape df) = map fst df"
  by (simp add: shape_def case_prod_beta comp_def)

lemma four_columns_zip:
  "length ds = length ks \<Longrightarrow> length ss = length ks \<Longrightarrow> length as = length ks \<Longrightarrow>
   map (\<lambda>(d, c, s, a). num_of a) (zip ds (zip ks (zip ss as))) = map num_of as
   \<and> map (\<lambda>(d, c, s, a). c) (zip ds (zip ks (zip ss as))) = ks
   \<and> map (\<lambda>(d, c, s, a). num_of a) (filter (\<lambda>(d, c, s, a). c = k) (zip ds (zip ks (zip ss as))))
     = map snd (filter (\<lambda>kv. fst kv = k) (zip ks (map num_of as)))"
proof (induction ks arbitrary: ds ss as)
  case Nil
  then show ?case by simp
next
  case (Cons x ks)
  then obtain d ds' s ss' a as' where "ds = d # ds'" "ss = s # ss'" "as = a # as'"
    by (metis length_Suc_conv)
  with Cons show ?case by simp
qed

section \<open>Ledgers\<close>

lemma ledger_columns:
  assumes "ledger df"
  shows "map_of df ''Category'' = Some (column_or_nan df ''Category'')"
    and "map_of df ''Amount'' = Some (column_or_nan df ''Amount'')"
    and "floats_of (column_or_nan df ''Amount'') = Inr (map num_of (column_or_nan df ''Amount''))"
proof -
  from assms have "''Category'' \<in> set (map fst df)" "''Amount'' \<in> set (map fst df)"
    by (auto simp: ledger_def columns_def)
  then obtain ks col where "map_of df ''Category'' = Some ks" "map_of df ''Amount'' = Some col"
    by (metis map_of_eq_None_iff not_Some_eq set_map)
  then show "map_of df ''Category'' = Some (column_or_nan df ''Category'')"
    and "map_of df ''Amount'' = Some (column_or_nan df ''Amount'')"
    by (simp_all add: column_or_nan_def)
  from assms show "floats_of (column_or_nan df ''Amount'') = Inr (map num_of (column_or_nan df ''Amount''))"
    by (simp add: ledger_def floats_of_def list_all_iff)
qed

lemma categories_ledger:
  assumes "rectangular df"
  shows "categories df = column_or_nan df ''Category''"
  unfolding categories_def records_def
  by (rule four_columns_zip[THEN conjunct2, THEN conjunct1])
    (simp_all add: length_column_or_nan[OF assms])

lemma all_amounts_ledger:
  assumes "rectangular df"
  shows "all_amounts df = map num_of (column_or_nan df ''Amount'')"
  unfolding all_amounts_def records_def
  by (rule four_columns_zip[THEN conjunct1]) (simp_all add: length_column_or_nan[OF assms])

lemma amounts_of_category_ledger:
  assumes "rectangular df"
  shows "amounts_of_category df k =
    map snd (filter (\<lambda>kv. fst kv = k)
      (zip (column_or_nan df ''Category'') (map num_of (column_or_nan df ''Amount''))))"
  unfolding amounts_of_category_def records_def
  by (rule four_columns_zip[THEN conjunct2, THEN conjunct2])
    (simp_all add: length_column_or_nan[OF assms])

lemma category_totals_ledger:
  assumes "ledger df"
  shows "category_totals env df =
           Inr (sort_values_desc (groupby_sum env (column_or_nan df ''Category'')
             (map num_of (column_or_nan df ''Amount''))))"
  using ledger_columns[OF assms] by (simp add: category_totals_def getitem_def)

lemma grand_total_ledger:
  assumes "ledger df"
  shows "grand_total env df = Inr (series_sum env (all_amounts df))"
proof -
  have r: "rectangular df" using assms by (simp add: ledger_def)
  show ?thesis
    using ledger_columns[OF assms] by (simp add: grand_total_def getitem_def all_amounts_ledger[OF r])
qed

section \<open>Sums and their order\<close>

lemma total_rank_le: "total_rank y \<le> total_rank x \<longleftrightarrow> (y = NaN \<or> fle y x)"
  by (cases x; cases y) (auto simp: total_rank_def less_eq_prod_def fle_def extended_def)

lemma sort_values_desc_sorted:
  "sorted_wrt (\<lambda>a b. snd b = NaN \<or> fle (snd b) (snd a)) (sort_values_desc xs)"
proof -
  have "sorted (map (\<lambda>kv. total_rank (snd kv)) (sort_key (\<lambda>kv. total_rank (snd kv)) (rev xs)))"
    by (rule sorted_sort_key)
  then have "sorted_wrt (\<lambda>a b. total_rank (snd a) \<le> total_rank (snd b))
      (sort_key (\<lambda>kv. total_rank (snd kv)) (rev xs))"
    by (simp add: sorted_map)
  then show ?thesis
    unfolding sort_values_desc_def by (simp add: sorted_wrt_rev total_rank_le)
qed

lemma set_sort_values_desc: "set (sort_values_desc xs) = set xs"
  by (simp add: sort_values_desc_def)

lemma sort_values_desc_Nil: "sort_values_desc xs = [] \<longleftrightarrow> xs = []"
  using set_sort_values_desc[of xs] by (metis set_empty)

lemma distinct_keys_sort_values_desc:
  "distinct (map fst (sort_values_desc xs)) = distinct (map fst xs)"
  by (simp add: sort_values_desc_def distinct_map)

lemma map_fst_groupby_sum:
  "map fst (groupby_sum env keys vals) =
     sort_key key_rank (remdups (filter (\<lambda>k. \<not> isna k) keys))"
  by (simp add: groupby_sum_def comp_def)

lemma groupby_sum_Nil: "groupby_sum env keys vals = [] \<longleftrightarrow> list_all isna keys"
proof -
  have "groupby_sum env keys vals = [] \<longleftrightarrow> set (map fst (groupby_sum env keys vals)) = {}"
    by simp
  also have "\<dots> \<longleftrightarrow> list_all isna keys"
    unfolding map_fst_groupby_sum by (auto simp: list_all_iff)
  finally show ?thesis .
qed

lemma groupby_sum_mem:
  "(k, v) \<in> set (groupby_sum env keys vals) \<Longrightarrow>
     v = group_sum env (int64_series vals) (map snd (filter (\<lambda>kv. fst kv = k) (zip keys vals)))"
  by (auto simp: groupby_sum_def)

text \<open>The sum of a group of a float column leaves out the amounts that are NaN, and the
  sum of all amounts counts them as zero.\<close>

lemma group_sum_skips_nan:
  "group_sum env False (xs @ NaN # ys) = group_sum env False (xs @ ys)"
  by (simp add: group_sum_def as_float_def)

lemma group_sum_floats:
  "list_all (\<lambda>v. \<not> is_whole v) vs \<Longrightarrow>
     group_sum env False vs = pd_groupby_sum env (filter (\<lambda>v. v \<noteq> NaN) vs)"
proof -
  assume "list_all (\<lambda>v. \<not> is_whole v) vs"
  then have "map as_float vs = vs"
    by (induction vs) (auto simp: as_float_def is_whole_def split: number.splits)
  then show ?thesis by (simp add: group_sum_def)
qed

lemma series_sum_skips_nan:
  "series_sum env (xs @ NaN # ys) =
     np_sum env (map (\<lambda>v. if v = NaN then Fin 0 else as_float v) xs
                 @ Fin 0 # map (\<lambda>v. if v = NaN then Fin 0 else as_float v) ys)"
  by (simp add: series_sum_def int64_series_def is_whole_def)

lemma foldl_fadd_finite:
  "foldl fadd (Fin a) (map Fin qs) = Fin (a + sum_list qs)"
  by (induction qs arbitrary: a) (simp_all add: add.assoc)

lemma exact_sum_finite: "exact_sum (map Fin qs) = Fin (sum_list qs)"
  by (simp add: exact_sum_def foldl_fadd_finite)

lemma category_totals_properties:
  assumes "ledger df"
  shows "\<exists>totals. category_totals env df = Inr totals
     \<and> distinct (map fst totals)
     \<and> set (map fst totals) = {c \<in> set (categories df). \<not> isna c}
     \<and> (\<forall>(k, v) \<in> set totals.
          v = group_sum env (int64_series (all_amounts df)) (amounts_of_category df k))
     \<and> sorted_wrt (\<lambda>a b. snd b = NaN \<or> fle (snd b) (snd a)) totals"
proof -
  have r: "rectangular df" using assms by (simp add: ledger_def)
  let ?g = "groupby_sum env (column_or_nan df ''Category'')
              (map num_of (column_or_nan df ''Amount''))"
  have 1: "distinct (map fst (sort_values_desc ?g))"
    by (simp add: distinct_keys_sort_values_desc map_fst_groupby_sum)
  have "set (map fst (sort_values_desc ?g)) = set (map fst ?g)"
    by (simp add: set_sort_values_desc)
  then have 2: "set (map fst (sort_values_desc ?g)) = {c \<in> set (categories df). \<not> isna c}"
    unfolding map_fst_groupby_sum by (simp add: categories_ledger[OF r])
  have 3: "\<forall>(k, v) \<in> set (sort_values_desc ?g).
             v = group_sum env (int64_series (all_amounts df)) (amounts_of_category df k)"
    using groupby_sum_mem
    by (auto simp: amounts_of_category_ledger[OF r] all_amounts_ledger[OF r] set_sort_values_desc)
  show ?thesis
    using category_totals_ledger[OF assms] 1 2 3 sort_values_desc_sorted by blast
qed

lemma summary_frame_formatted: "summary_frame totals = formatted_summary totals"
  by (simp add: summary_frame_def formatted_summary_def setitem_def)

lemma summarize_ledger:
  assumes "ledger (expenses t)" and "\<not> is_empty (expenses t)"
    and "category_totals env (expenses t) = Inr totals"
  shows "summarize_by_category env t =
     ([SummaryHeader, Table (formatted_summary totals), Rule,
       TotalSpent (money (series_sum env (all_amounts (expenses t)))), SummaryFooter],
      Inr (t, Some (formatted_summary totals)))"
  using assms grand_total_ledger[OF assms(1)]
  by (simp add: summarize_by_category_def summary_frame_formatted Let_def)

section \<open>Formatted values\<close>

lemma money_values:
  "money (Fin 5) = ''$5.00''" "money (Fin 10) = ''$10.00''" "money (Fin 15) = ''$15.00''"
  "money (Fin 800) = ''$800.00''" "money (Fin 815) = ''$815.00''"
  "money (Fin (25 / 2)) = ''$12.50''" "money (Fin (2469 / 2)) = ''$1,234.50''"
  "money (Fin 1247) = ''$1,247.00''"
  by (simp_all add: money_def format_2f_def fixed2_def round_half_even_def dec.simps
      commas.simps digit_char_def Let_def)

lemma to_float64_values:
  "to_float64 (- 2) = - 2" "to_float64 9007199254740993 = 9007199254740992"
  by (simp_all add: to_float64_def bit_length.simps Let_def)

lemma money_negative: "money (Whole (- 2)) = ''$-2.00''"
  by (simp add: money_def format_2f_def to_float64_values fixed2_def round_half_even_def
      dec.simps commas.simps digit_char_def Let_def)

section \<open>Loading a file\<close>

lemma map_of_read_csv_columns:
  "map_of (map (\<lambda>(name, texts). (name, g name texts)) table) name =
     map_option (g name) (map_of table name)"
  by (induction table) auto

lemma to_numeric_convert_column:
  "map (to_numeric_coerce env) (convert_column env texts) = map (coerced_amount env texts) texts"
proof (cases "integer_column env texts")
  case True
  then have "\<forall>f \<in> set texts. \<not> is_na_text f \<and> pd_numeric env f \<noteq> None"
    by (auto simp: integer_column_def list_all_iff split: option.splits)
  then show ?thesis
    using True by (auto simp: convert_column_def coerced_amount_def split: option.splits)
next
  case False
  then show ?thesis
    by (auto simp: convert_column_def coerced_amount_def text_cell_def split: option.splits)
qed

lemma length_convert_column: "length (convert_column env texts) = length texts"
  by (simp add: convert_column_def)

lemma length_convert_dates: "length (convert_dates env texts) = length texts"
  by (simp add: convert_dates_def)

lemma shape_read_columns:
  "shape (map (\<lambda>(name, texts). (name, if name = ''Date'' then convert_dates env texts
                        else convert_column env texts)) table) = shape table"
  unfolding shape_def by (induction table) (auto simp: length_convert_column length_convert_dates)

lemma coerced_amount_is_num: "is_number (coerced_amount env texts f)"
  by (simp add: coerced_amount_def is_number_def split: option.splits)

lemma init_table:
  assumes "disk name = Some (Csv table)" and "''Date'' \<in> set (map fst table)"
    and "map_of table ''Amount'' = Some texts"
  shows "\<exists>df. init env disk name =
           ([LoadedRecords (nrows df)],
            Inr \<lparr>filename = name,
                 expenses = setitem df ''Amount'' (map (coerced_amount env texts) texts)\<rparr>)
         \<and> shape (setitem df ''Amount'' (map (coerced_amount env texts) texts)) = shape table"
proof -
  let ?conv = "\<lambda>name texts. if name = ''Date'' then convert_dates env texts
                        else convert_column env texts"
  let ?df = "map (\<lambda>(name, texts). (name, ?conv name texts)) table"
  let ?amounts = "map (coerced_amount env texts) texts"
  have rd: "read_csv env (Csv table) = Inr ?df"
    using assms(2) by (simp add: read_csv_def)
  have col: "map_of ?df ''Amount'' = Some (convert_column env texts)"
    using assms(3) by (simp add: map_of_read_csv_columns[where g = ?conv])
  have ini: "init env disk name = ([LoadedRecords (nrows ?df)],
      Inr \<lparr>filename = name, expenses = setitem ?df ''Amount'' ?amounts\<rparr>)"
    using assms(1) rd col
    by (simp add: init_def getitem_def to_numeric_convert_column)
  have sh: "shape (setitem ?df ''Amount'' ?amounts) = shape table"
    using shape_setitem[OF col, of ?amounts]
    by (simp add: shape_read_columns length_convert_column)
  show ?thesis using ini sh by blast
qed

lemma init_missing_file:
  "disk name = None \<Longrightarrow>
     init env disk name = ([NoExistingFile], Inr \<lparr>filename = name, expenses = empty_frame\<rparr>)"
  by (simp add: init_def getitem_def setitem_def empty_frame_def columns_def)

lemma init_empty_file:
  "disk name = Some EmptyFile \<Longrightarrow>
     init env disk name = ([CsvFileEmpty], Inr \<lparr>filename = name, expenses = empty_frame\<rparr>)"
  by (simp add: init_def read_csv_def getitem_def setitem_def empty_frame_def columns_def)

lemma init_unparsable_file:
  "disk name = Some Unparsable \<Longrightarrow>
     init env disk name =
       ([ErrorLoadingCsv ParserError], Inr \<lparr>filename = name, expenses = empty_frame\<rparr>)"
  by (simp add: init_def read_csv_def getitem_def setitem_def empty_frame_def columns_def)

lemma init_no_date_column:
  "disk name = Some (Csv table) \<Longrightarrow> ''Date'' \<notin> set (map fst table) \<Longrightarrow>
     init env disk name =
       ([ErrorLoadingCsv ValueError], Inr \<lparr>filename = name, expenses = empty_frame\<rparr>)"
  by (simp add: init_def read_csv_def getitem_def setitem_def empty_frame_def columns_def)

lemma init_no_amount_column:
  "disk name = Some (Csv table) \<Longrightarrow> ''Date'' \<in> set (map fst table) \<Longrightarrow>
   ''Amount'' \<notin> set (map fst table) \<Longrightarrow>
     snd (init env disk name) = Inl (KeyError ''Amount'')"
proof -
  assume a: "disk name = Some (Csv table)" "''Date'' \<in> set (map fst table)"
    "''Amount'' \<notin> set (map fst table)"
  let ?conv = "\<lambda>name texts. if name = ''Date'' then convert_dates env texts
                        else convert_column env texts"
  have "map_of table ''Amount'' = None" using a(3) by (simp add: map_of_eq_None_iff)
  then have "map_of (map (\<lambda>(name, texts). (name, ?conv name texts)) table) ''Amount'' = None"
    by (simp add: map_of_read_csv_columns[where g = ?conv])
  then show ?thesis using a(1,2)
    by (simp add: init_def read_csv_def getitem_def)
qed

section \<open>Every state of the program is a ledger\<close>

text \<open>
  The constructor builds a ledger from a missing, an empty or an unparsable file and from
  a rectangular table with the four columns; \<^verbatim>\<open>add_expense\<close> and \<^verbatim>\<open>save_expenses\<close>
  keep a ledger a ledger.
\<close>

lemma ledger_empty_frame: "ledger empty_frame"
  by (simp add: ledger_def rectangular_def empty_frame_def columns_def nrows_def
      column_or_nan_def)

lemma init_ledger:
  assumes "init env disk name = (out, Inr t)"
    and "\<And>table. disk name = Some (Csv table) \<Longrightarrow>
           rectangular table \<and> set columns \<subseteq> set (map fst table)"
  shows "ledger (expenses t)"
proof (cases "disk name")
  case None
  then show ?thesis using assms(1) by (auto simp: init_missing_file ledger_empty_frame)
next
  case (Some f)
  show ?thesis
  proof (cases f)
    case EmptyFile
    then show ?thesis using Some assms(1) by (auto simp: init_empty_file ledger_empty_frame)
  next
    case Unparsable
    then show ?thesis using Some assms(1) by (auto simp: init_unparsable_file ledger_empty_frame)
  next
    case (Csv table)
    then have d: "disk name = Some (Csv table)" using Some by simp
    from assms(2)[OF d] have r: "rectangular table" and c: "set columns \<subseteq> set (map fst table)"
      by simp_all
    from c have dt: "''Date'' \<in> set (map fst table)" and am: "''Amount'' \<in> set (map fst table)"
      by (auto simp: columns_def)
    from am obtain texts where tx: "map_of table ''Amount'' = Some texts"
      by (metis map_of_eq_None_iff not_Some_eq set_map)
    from init_table[where disk = disk and name = name and env = env, OF d dt tx] assms(1)
    obtain df where
      e: "expenses t = setitem df ''Amount'' (map (coerced_amount env texts) texts)"
      and sh: "shape (expenses t) = shape table"
      by auto
    have 1: "rectangular (expenses t)"
      using r by (simp add: rectangular_shape sh)
    have "map fst (expenses t) = map fst table"
      by (metis sh map_fst_shape)
    then have 2: "set columns \<subseteq> set (map fst (expenses t))"
      using c by simp
    have 3: "\<forall>c \<in> set (column_or_nan (expenses t) ''Amount''). is_number c"
      unfolding e by (simp add: column_setitem_same coerced_amount_is_num)
    show ?thesis using 1 2 3 by (simp add: ledger_def)
  qed
qed

lemma length_column_new_expense:
  "length (column_or_nan (new_expense env c d a) name) = 1"
  by (simp add: column_or_nan_def new_expense_def nrows_def)

lemma rectangular_concat_new_expense:
  assumes "rectangular df"
  shows "rectangular (concat_frames df (new_expense env c d a))
       \<and> nrows (concat_frames df (new_expense env c d a)) = nrows df + 1"
proof -
  let ?b = "new_expense env c d a"
  let ?names = "map fst df @ filter (\<lambda>name. name \<notin> set (map fst df)) (map fst ?b)"
  have len: "\<And>name. length (concat_columns (column_or_nan df name) (column_or_nan ?b name))
                 = nrows df + 1"
    by (simp add: length_concat_columns length_column_or_nan[OF assms] length_column_new_expense)
  have ne: "?names \<noteq> []"
    by (cases df) (simp_all add: new_expense_def)
  then obtain n ns where nn: "?names = n # ns" by (cases ?names) auto
  have n: "nrows (concat_frames df ?b) = nrows df + 1"
    unfolding concat_frames_def nn using len by (simp add: nrows_def)
  have "\<forall>col \<in> set (map snd (concat_frames df ?b)). length col = nrows df + 1"
    unfolding concat_frames_def using len by auto
  then show ?thesis using n by (simp add: rectangular_def)
qed

lemma is_number_as_float_cell: "is_number (as_float_cell c) = is_number c"
  by (cases c) (simp_all add: as_float_cell_def is_number_def)

lemma is_number_concat_columns:
  "\<forall>c \<in> set xs. is_number c \<Longrightarrow> \<forall>c \<in> set ys. is_number c \<Longrightarrow>
     \<forall>c \<in> set (concat_columns xs ys). is_number c"
  by (auto simp: concat_columns_def is_number_as_float_cell)

lemma add_expense_ledger:
  assumes "ledger (expenses t)"
  shows "ledger (expenses (snd (add_expense env t category description amount)))"
proof (cases "float_py env amount")
  case None
  then show ?thesis using assms by (simp add: add_expense_def)
next
  case (Some a)
  show ?thesis
  proof (cases "fle a (Fin 0)")
    case True
    then show ?thesis using assms Some by (simp add: add_expense_def)
  next
    case False
    let ?df = "concat_frames (expenses t) (new_expense env category description a)"
    have r: "rectangular (expenses t)" using assms by (simp add: ledger_def)
    have 1: "rectangular ?df" using rectangular_concat_new_expense[OF r] by simp
    have 2: "set columns \<subseteq> set (map fst ?df)"
      using assms by (auto simp: ledger_def concat_frames_def comp_def)
    have "column_or_nan ?df ''Amount'' =
            concat_columns (column_or_nan (expenses t) ''Amount'') [Num a]"
      by (simp add: column_concat_new_expense columns_def column_new_expense)
    then have 3: "\<forall>c \<in> set (column_or_nan ?df ''Amount''). is_number c"
      using assms is_number_concat_columns[of "column_or_nan (expenses t) ''Amount''" "[Num a]"]
      by (simp add: ledger_def is_number_def)
    show ?thesis using Some False 1 2 3 by (simp add: add_expense_def ledger_def)
  qed
qed

lemma ledger_setitem_date:
  assumes "ledger df" and "map_of df ''Date'' = Some col"
  shows "ledger (setitem df ''Date'' (map g col))"
proof -
  have sh: "shape (setitem df ''Date'' (map g col)) = shape df"
    using shape_setitem[OF assms(2), of "map g col"] by simp
  have 1: "rectangular (setitem df ''Date'' (map g col))"
    using assms(1) by (simp add: rectangular_shape sh ledger_def)
  have "map fst (setitem df ''Date'' (map g col)) = map fst df"
    by (metis sh map_fst_shape)
  then have 2: "set columns \<subseteq> set (map fst (setitem df ''Date'' (map g col)))"
    using assms(1) by (simp add: ledger_def)
  have 3: "column_or_nan (setitem df ''Date'' (map g col)) ''Amount'' = column_or_nan df ''Amount''"
    using column_setitem_other[OF _ assms(2), of "''Amount''" "map g col"] by simp
  show ?thesis using assms(1) 1 2 3 by (simp add: ledger_def)
qed

lemma save_expenses_ledger:
  assumes "ledger (expenses t)"
  shows "ledger (expenses (fst (snd (save_expenses env io_ok disk t))))"
proof (cases "map_of (expenses t) ''Date''")
  case None
  then show ?thesis using assms by (simp add: save_expenses_def getitem_def)
next
  case (Some col)
  show ?thesis
    using assms Some ledger_setitem_date[OF assms Some]
    by (simp add: save_expenses_def getitem_def Let_def)
qed

section \<open>Adding an expense\<close>

text \<open>
  What \<^verbatim>\<open>add_expense\<close> does with an amount text that reads as a float greater than
  zero: it prints its confirmation and puts one record below the others, with the current
  day, the stripped and capitalised category, the stripped description and the float
  read. The records that were there keep their order, date, category and description.
  Their amounts are kept when they are floats; when the \<^verbatim>\<open>Amount\<close> column was of
  integers, \<^verbatim>\<open>pd.concat\<close> makes it a column of floats and every amount becomes the
  float nearest to it.
\<close>

lemma add_expense_appends:
  assumes "float_py env amount = Some a" and "\<not> is_whole a" and "positive a"
    and "rectangular (expenses t)" and "ascii category" and "ascii description"
  shows "\<exists>t'. add_expense env t category description amount =
           ([AddedExpense category description (format_2f False a)], t')
         \<and> filename t' = filename t
         \<and> records (expenses t') =
             map (\<lambda>(d, c, s, x). (d, c, s, amount_after_add (expenses t) x)) (records (expenses t))
             @ [(Day (today env), Str (capitalize (strip category)), Str (strip description),
                 Num a)]"
proof -
  have "\<not> fle a (Fin 0)"
    using assms(2,3) by (cases a) (auto simp: positive_def fle_def extended_def is_whole_def)
  then show ?thesis
    using assms(1,2,4) by (simp add: add_expense_def records_concat_new_expense)
qed

lemma amount_after_add_float:
  "\<not> int64_cells (column_or_nan df ''Amount'') \<Longrightarrow> amount_after_add df x = x"
  by (simp add: amount_after_add_def)

lemma add_expense_appends_example:
  "records (expenses (snd (add_expense demo_env food_rent ''  tRAVel '' '' bus  '' ''12.5''))) =
       [(Day (Date 2024 1 10), Str ''Food'', Str ''lunch'', Num (Fin 10)),
        (Day (Date 2024 1 11), Str ''Food'', Str ''coffee'', Num (Fin 5)),
        (Day (Date 2024 1 12), Str ''Rent'', Str ''january'', Num (Fin 800)),
        (Day (Date 2024 1 15), Str ''Travel'', Str ''bus'', Num (Fin (25 / 2)))]"
proof -
  have h1: "float_py demo_env ''12.5'' = Some (Fin (25 / 2))" by (simp add: demo_env_def)
  have h2: "\<not> is_whole (Fin (25 / 2))" by (simp add: is_whole_def)
  have h3: "positive (Fin (25 / 2))" by (simp add: positive_def)
  have h4: "rectangular (expenses food_rent)" by code_simp
  have h5: "ascii ''  tRAVel ''" "ascii '' bus  ''" by code_simp+
  have old: "map (\<lambda>(d, c, s, x). (d, c, s, amount_after_add (expenses food_rent) x))
               (records (expenses food_rent)) =
       [(Day (Date 2024 1 10), Str ''Food'', Str ''lunch'', Num (Fin 10)),
        (Day (Date 2024 1 11), Str ''Food'', Str ''coffee'', Num (Fin 5)),
        (Day (Date 2024 1 12), Str ''Rent'', Str ''january'', Num (Fin 800))]"
    by code_simp
  have new: "capitalize (strip ''  tRAVel '') = ''Travel''" "strip '' bus  '' = ''bus''"
    "today demo_env = Date 2024 1 15"
    by code_simp+
  from add_expense_appends[OF h1 h2 h3 h4 h5]
  show ?thesis using old new by auto
qed

text \<open>
  Claim C1 fails on the program. A file whose amounts are all integers is loaded as an
  int64 column, and line 35 leaves it so. The first expense added then puts a float below
  it, and \<^verbatim>\<open>pd.concat\<close> turns the column into float64: the amount 9007199254740993 of
  the record that was there becomes 9007199254740992.0. The record added is as the claim
  says.
\<close>

theorem add_expense_alters_loaded_amount:
  "init demo_env big_amount_disk ''expenses.csv'' = ([LoadedRecords 1], Inr big_amount)
   \<and> records (expenses big_amount) =
       [(Stamp (Date 2024 1 15) (Clock 0 0 0), Str ''Rent'', Str ''tower'',
         Num (Whole 9007199254740993))]
   \<and> fst (add_expense demo_env big_amount ''food'' ''lunch'' ''5'') =
       [AddedExpense ''food'' ''lunch'' ''5.00'']
   \<and> records (expenses (snd (add_expense demo_env big_amount ''food'' ''lunch'' ''5''))) =
       [(Stamp (Date 2024 1 15) (Clock 0 0 0), Str ''Rent'', Str ''tower'',
         Num (Fin 9007199254740992)),
        (Day (Date 2024 1 15), Str ''Food'', Str ''lunch'', Num (Fin 5))]"
proof -
  have 1: "init demo_env big_amount_disk ''expenses.csv'' = ([LoadedRecords 1], Inr big_amount)"
    by code_simp
  have 2: "records (expenses big_amount) =
       [(Stamp (Date 2024 1 15) (Clock 0 0 0), Str ''Rent'', Str ''tower'',
         Num (Whole 9007199254740993))]"
    by code_simp
  have f: "format_2f False (Fin 5) = ''5.00''"
    by (simp add: format_2f_def fixed2_def round_half_even_def dec.simps digit_char_def Let_def)
  have fp: "float_py demo_env ''5'' = Some (Fin 5)" by (simp add: demo_env_def)
  have le: "\<not> fle (Fin 5) (Fin 0)" by (simp add: fle_def extended_def)
  have r: "rectangular (expenses big_amount)" by code_simp
  have w: "\<not> is_whole (Fin 5)" by (simp add: is_whole_def)
  have up: "amount_after_add (expenses big_amount) (Num (Whole 9007199254740993)) =
      Num (Fin 9007199254740992)"
    by (simp add: amount_after_add_def big_amount_def column_or_nan_def int64_cells_def
        is_whole_def as_float_cell_def as_float_def to_float64_values)
  have new: "capitalize (strip ''food'') = ''Food''" "strip ''lunch'' = ''lunch''"
    "today demo_env = Date 2024 1 15"
    by code_simp+
  have 3: "fst (add_expense demo_env big_amount ''food'' ''lunch'' ''5'') =
       [AddedExpense ''food'' ''lunch'' ''5.00'']"
    by (simp add: add_expense_def fp le f)
  have 4: "records (expenses (snd (add_expense demo_env big_amount ''food'' ''lunch'' ''5''))) =
       [(Stamp (Date 2024 1 15) (Clock 0 0 0), Str ''Rent'', Str ''tower'',
         Num (Fin 9007199254740992)),
        (Day (Date 2024 1 15), Str ''Food'', Str ''lunch'', Num (Fin 5))]"
    by (simp add: add_expense_def fp le records_concat_new_expense[OF r w] 2 up new)
  show ?thesis using 1 2 3 4 by simp
qed

text \<open>
  When the amount text does not read as a float, or reads as a float that is
  \<^verbatim>\<open><= 0\<close>, \<^verbatim>\<open>add_expense\<close> prints one failure message (which one says which check
  failed) and returns the tracker as it was: no record is created.
\<close>

lemma add_expense_rejects:
  assumes "float_py env amount = None \<or> (\<exists>a. float_py env amount = Some a \<and> fle a (Fin 0))"
  shows "add_expense env t category description amount =
           ([if float_py env amount = None then InvalidAmount else AmountMustBePositive], t)"
  using assms by (auto simp: add_expense_def)

lemma add_expense_rejects_example:
  "add_expense demo_env food_rent ''food'' ''lunch'' ''twelve'' = ([InvalidAmount], food_rent)
   \<and> add_expense demo_env food_rent ''food'' ''lunch'' ''-3'' = ([AmountMustBePositive], food_rent)
   \<and> add_expense demo_env food_rent ''food'' ''lunch'' ''0'' = ([AmountMustBePositive], food_rent)"
proof -
  have 1: "float_py demo_env ''twelve'' = None" by (simp add: demo_env_def)
  have 2: "float_py demo_env ''-3'' = Some (Fin (- 3)) \<and> fle (Fin (- 3)) (Fin 0)"
    by (simp add: demo_env_def fle_def extended_def)
  have 3: "float_py demo_env ''0'' = Some (Fin 0) \<and> fle (Fin 0) (Fin 0)"
    by (simp add: demo_env_def fle_def extended_def)
  show ?thesis
    using add_expense_rejects[of demo_env "''twelve''" food_rent "''food''" "''lunch''"]
      add_expense_rejects[of demo_env "''-3''" food_rent "''food''" "''lunch''"]
      add_expense_rejects[of demo_env "''0''" food_rent "''food''" "''lunch''"] 1 2 3
    by simp
qed

text \<open>Whatever \<^verbatim>\<open>float\<close> reads as NaN is added, with NaN for its amount.\<close>

lemma add_expense_nan:
  "float_py env amount = Some NaN \<Longrightarrow> rectangular (expenses t) \<Longrightarrow>
     add_expense env t category description amount =
       ([AddedExpense category description ''nan''],
        t\<lparr>expenses := concat_frames (expenses t) (new_expense env category description NaN)\<rparr>)
     \<and> records (expenses (snd (add_expense env t category description amount))) =
       map (\<lambda>(d, c, s, x). (d, c, s, amount_after_add (expenses t) x)) (records (expenses t))
       @ [(Day (today env), Str (capitalize (strip category)), Str (strip description), Num NaN)]"
  by (simp add: add_expense_def records_concat_new_expense fle_def extended_def is_whole_def
      format_2f_def)

text \<open>
  Claim C2 fails on the program. The text \<^verbatim>\<open>nan\<close> is no decimal number, but
  \<^verbatim>\<open>float\<close> reads it as NaN and \<^verbatim>\<open>amount <= 0\<close> is false of NaN: the input is not
  rejected, the confirmation is printed with the amount \<^verbatim>\<open>nan\<close>, and a record whose
  amount is NaN is added to the ledger.
\<close>

theorem add_expense_accepts_nan:
  "float_py demo_env ''nan'' = Some NaN
   \<and> fst (add_expense demo_env food_rent ''food'' ''lunch'' ''nan'') =
       [AddedExpense ''food'' ''lunch'' ''nan'']
   \<and> records (expenses food_rent) =
       [(Day (Date 2024 1 10), Str ''Food'', Str ''lunch'', Num (Fin 10)),
        (Day (Date 2024 1 11), Str ''Food'', Str ''coffee'', Num (Fin 5)),
        (Day (Date 2024 1 12), Str ''Rent'', Str ''january'', Num (Fin 800))]
   \<and> records (expenses (snd (add_expense demo_env food_rent ''food'' ''lunch'' ''nan''))) =
       [(Day (Date 2024 1 10), Str ''Food'', Str ''lunch'', Num (Fin 10)),
        (Day (Date 2024 1 11), Str ''Food'', Str ''coffee'', Num (Fin 5)),
        (Day (Date 2024 1 12), Str ''Rent'', Str ''january'', Num (Fin 800)),
        (Day (Date 2024 1 15), Str ''Food'', Str ''lunch'', Num NaN)]"
proof -
  have fp: "float_py demo_env ''nan'' = Some NaN" by (simp add: demo_env_def)
  have r: "rectangular (expenses food_rent)" by code_simp
  have old: "records (expenses food_rent) =
       [(Day (Date 2024 1 10), Str ''Food'', Str ''lunch'', Num (Fin 10)),
        (Day (Date 2024 1 11), Str ''Food'', Str ''coffee'', Num (Fin 5)),
        (Day (Date 2024 1 12), Str ''Rent'', Str ''january'', Num (Fin 800))]"
    by code_simp
  have kept: "map (\<lambda>(d, c, s, x). (d, c, s, amount_after_add (expenses food_rent) x))
               (records (expenses food_rent)) = records (expenses food_rent)"
    by code_simp
  have new: "capitalize (strip ''food'') = ''Food''" "strip ''lunch'' = ''lunch''"
    "today demo_env = Date 2024 1 15"
    by code_simp+
  note added = add_expense_nan[OF fp r, of "''food''" "''lunch''"]
  have 1: "fst (add_expense demo_env food_rent ''food'' ''lunch'' ''nan'') =
       [AddedExpense ''food'' ''lunch'' ''nan'']"
    using added[THEN conjunct1] by simp
  have 2: "records (expenses (snd (add_expense demo_env food_rent ''food'' ''lunch'' ''nan''))) =
       records (expenses food_rent) @ [(Day (Date 2024 1 15), Str ''Food'', Str ''lunch'', Num NaN)]"
    using added[THEN conjunct2] unfolding kept new by simp
  show ?thesis using fp old 1 2 by simp
qed

section \<open>Saving and loading again\<close>

text \<open>
  Claim C3 fails on the program: an expense added with an empty description is written
  with an empty field, which \<^verbatim>\<open>read_csv\<close> reads back as NaN. The description of the
  record loaded is missing, not the empty text that was saved.
\<close>

theorem save_then_load_loses_empty_text:
  "add_expense demo_env new_tracker ''food'' [] ''5'' =
     ([AddedExpense ''food'' [] ''5.00''], one_expense)
   \<and> records (expenses one_expense) =
       [(Day (Date 2024 1 15), Str ''Food'', Str [], Num (Fin 5))]
   \<and> save_expenses demo_env True Map.empty one_expense =
       ([SavedTo ''expenses.csv''], one_expense, saved_disk)
   \<and> saved_disk ''expenses.csv'' =
       Some (Csv [(''Date'', [''2024-01-15'']), (''Category'', [''Food'']),
                  (''Description'', [[]]), (''Amount'', [''5.0''])])
   \<and> init demo_env saved_disk ''expenses.csv'' =
       ([LoadedRecords 1],
        Inr \<lparr>filename = ''expenses.csv'',
             expenses = [(''Date'', [Stamp (Date 2024 1 15) (Clock 0 0 0)]),
                         (''Category'', [Str ''Food'']),
                         (''Description'', [Num NaN]),
                         (''Amount'', [Num (Fin 5)])]\<rparr>)"
proof -
  have f: "format_2f False (Fin 5) = ''5.00''"
    by (simp add: format_2f_def fixed2_def round_half_even_def dec.simps digit_char_def Let_def)
  have fp: "float_py demo_env ''5'' = Some (Fin 5)" by (simp add: demo_env_def)
  have le: "\<not> fle (Fin 5) (Fin 0)" by (simp add: fle_def extended_def)
  have 1: "add_expense demo_env new_tracker ''food'' [] ''5'' =
     ([AddedExpense ''food'' [] ''5.00''], one_expense)"
    unfolding one_expense_def by (simp add: add_expense_def fp f le)
  have 2: "records (expenses one_expense) =
       [(Day (Date 2024 1 15), Str ''Food'', Str [], Num (Fin 5))]"
    by code_simp
  have 3: "fst (save_expenses demo_env True Map.empty one_expense) = [SavedTo ''expenses.csv'']"
    by code_simp
  have 4: "fst (snd (save_expenses demo_env True Map.empty one_expense)) = one_expense"
    by code_simp
  have 5: "save_expenses demo_env True Map.empty one_expense =
       ([SavedTo ''expenses.csv''], one_expense, saved_disk)"
    using 3 4 unfolding saved_disk_def by (simp add: prod_eq_iff)
  have 6: "saved_disk ''expenses.csv'' =
       Some (Csv [(''Date'', [''2024-01-15'']), (''Category'', [''Food'']),
                  (''Description'', [[]]), (''Amount'', [''5.0''])])"
    by code_simp
  have 7: "init demo_env saved_disk ''expenses.csv'' =
       ([LoadedRecords 1],
        Inr \<lparr>filename = ''expenses.csv'',
             expenses = [(''Date'', [Stamp (Date 2024 1 15) (Clock 0 0 0)]),
                         (''Category'', [Str ''Food'']),
                         (''Description'', [Num NaN]),
                         (''Amount'', [Num (Fin 5)])]\<rparr>)"
    by code_simp
  show ?thesis using 1 2 5 6 7 by simp
qed

section \<open>The summary by category\<close>

text \<open>
  What \<^verbatim>\<open>summarize_by_category\<close> does. On an empty ledger it prints that there is
  nothing to summarize and returns \<^verbatim>\<open>None\<close>. On any other ledger the sums by category
  have one row for each category that occurs (a missing category is no group), the rows
  are in descending order of total (NaN last), and the table printed is that of these rows
  with the total over all records. The total of a row is the sum of the group: when the
  amounts are floats, the sum pandas gives for the amounts of the records of that category
  that are not NaN; when the amounts are integers, their sum modulo \<open>2^64\<close>.
\<close>

lemma summarize_by_category_empty:
  "is_empty (expenses t) \<Longrightarrow>
     summarize_by_category env t = ([NothingToSummarize], Inr (t, None))"
  by (simp add: summarize_by_category_def)

lemma summarize_by_category_groups:
  assumes "ledger (expenses t)" and "\<not> is_empty (expenses t)"
  shows "\<exists>totals. category_totals env (expenses t) = Inr totals
           \<and> fst (summarize_by_category env t) =
               [SummaryHeader, Table (formatted_summary totals), Rule,
                TotalSpent (money (series_sum env (all_amounts (expenses t)))), SummaryFooter]
           \<and> distinct (map fst totals)
           \<and> set (map fst totals) = {c \<in> set (categories (expenses t)). \<not> isna c}
           \<and> (\<forall>(k, v) \<in> set totals.
                 v = (if int64_series (all_amounts (expenses t))
                      then Whole (wrap64 (sum_list (map whole_of
                                   (amounts_of_category (expenses t) k))))
                      else pd_groupby_sum env
                             (filter (\<lambda>x. x \<noteq> NaN)
                                (map as_float (amounts_of_category (expenses t) k)))))
           \<and> sorted_wrt (\<lambda>a b. snd b = NaN \<or> fle (snd b) (snd a)) totals"
proof -
  from category_totals_properties[OF assms(1), of env] obtain totals where
    t: "category_totals env (expenses t) = Inr totals"
      "distinct (map fst totals)"
      "set (map fst totals) = {c \<in> set (categories (expenses t)). \<not> isna c}"
      "\<forall>(k, v) \<in> set totals.
          v = group_sum env (int64_series (all_amounts (expenses t)))
                (amounts_of_category (expenses t) k)"
      "sorted_wrt (\<lambda>a b. snd b = NaN \<or> fle (snd b) (snd a)) totals"
    by blast
  have f: "fst (summarize_by_category env t) =
               [SummaryHeader, Table (formatted_summary totals), Rule,
                TotalSpent (money (series_sum env (all_amounts (expenses t)))), SummaryFooter]"
    using summarize_ledger[OF assms t(1)] by simp
  have g: "\<forall>(k, v) \<in> set totals.
                 v = (if int64_series (all_amounts (expenses t))
                      then Whole (wrap64 (sum_list (map whole_of
                                   (amounts_of_category (expenses t) k))))
                      else pd_groupby_sum env
                             (filter (\<lambda>x. x \<noteq> NaN)
                                (map as_float (amounts_of_category (expenses t) k))))"
    using t(4) unfolding group_sum_def int64_sum_def .
  show ?thesis using t(1,2,3,5) f g by blast
qed

text \<open>The records (Food, 10), (Food, 5), (Rent, 800) give the rows (Rent, 800),
  (Food, 15) and the total 815.\<close>

lemma summarize_food_rent:
  "category_totals demo_env (expenses food_rent) =
     Inr [(Str ''Rent'', Fin 800), (Str ''Food'', Fin 15)]
   \<and> grand_total demo_env (expenses food_rent) = Inr (Fin 815)
   \<and> fst (summarize_by_category demo_env food_rent) =
       [SummaryHeader,
        Table [(''Category'', [Str ''Rent'', Str ''Food'']),
               (''Amount'', [Str ''$800.00'', Str ''$15.00''])],
        Rule, TotalSpent ''$815.00'', SummaryFooter]"
proof -
  have h1: "ledger (expenses food_rent)" by code_simp
  have h2: "\<not> is_empty (expenses food_rent)" by code_simp
  have ct: "category_totals demo_env (expenses food_rent) =
     Inr [(Str ''Rent'', Fin 800), (Str ''Food'', Fin 15)]"
    by code_simp
  have gt: "grand_total demo_env (expenses food_rent) = Inr (Fin 815)" by code_simp
  have am: "series_sum demo_env (all_amounts (expenses food_rent)) = Fin 815" by code_simp
  show ?thesis
    using ct gt summarize_ledger[OF h1 h2 ct]
    by (simp add: am formatted_summary_def money_values)
qed

text \<open>An amount that is NaN is left out of the sum of its category and of the total:
  the records (Food, 10), (Food, NaN), (Food, 5) give the row (Food, 15) and the total
  15.\<close>

lemma summarize_skips_missing_amount:
  "records (expenses with_missing) =
     [(Day (Date 2024 1 10), Str ''Food'', Str ''lunch'', Num (Fin 10)),
      (Day (Date 2024 1 11), Str ''Food'', Str ''coffee'', Num NaN),
      (Day (Date 2024 1 12), Str ''Food'', Str ''dinner'', Num (Fin 5))]
   \<and> category_totals demo_env (expenses with_missing) = Inr [(Str ''Food'', Fin 15)]
   \<and> grand_total demo_env (expenses with_missing) = Inr (Fin 15)"
  by code_simp

text \<open>
  Claim C4 fails on the program. A file whose amounts are all integers is loaded as an
  int64 column, and line 35 leaves it so; the sums of lines 76 and 78 are then int64
  sums, which wrap around. Two records of the category Rent with the amount
  9223372036854775807 each give the row (Rent, -2) and the total -2, where the sum of the
  amounts is 18446744073709551614. (On an empty ledger, and on the records of the
  example, the claim holds: see the lemmas above.)
\<close>

theorem summarize_by_category_wraps_around:
  "init demo_env overflow_disk ''expenses.csv'' = ([LoadedRecords 2], Inr overflowing)
   \<and> records (expenses overflowing) =
       [(Stamp (Date 2024 1 15) (Clock 0 0 0), Str ''Rent'', Str ''tower'',
         Num (Whole 9223372036854775807)),
        (Stamp (Date 2024 1 15) (Clock 0 0 0), Str ''Rent'', Str ''bridge'',
         Num (Whole 9223372036854775807))]
   \<and> category_totals demo_env (expenses overflowing) = Inr [(Str ''Rent'', Whole (- 2))]
   \<and> grand_total demo_env (expenses overflowing) = Inr (Whole (- 2))
   \<and> summarize_by_category demo_env overflowing =
       ([SummaryHeader,
         Table [(''Category'', [Str ''Rent'']), (''Amount'', [Str ''$-2.00''])],
         Rule, TotalSpent ''$-2.00'', SummaryFooter],
        Inr (overflowing,
             Some [(''Category'', [Str ''Rent'']), (''Amount'', [Str ''$-2.00''])]))"
proof -
  have 1: "init demo_env overflow_disk ''expenses.csv'' = ([LoadedRecords 2], Inr overflowing)"
    by code_simp
  have 2: "records (expenses overflowing) =
       [(Stamp (Date 2024 1 15) (Clock 0 0 0), Str ''Rent'', Str ''tower'',
         Num (Whole 9223372036854775807)),
        (Stamp (Date 2024 1 15) (Clock 0 0 0), Str ''Rent'', Str ''bridge'',
         Num (Whole 9223372036854775807))]"
    by code_simp
  have 3: "category_totals demo_env (expenses overflowing) = Inr [(Str ''Rent'', Whole (- 2))]"
    by code_simp
  have 4: "grand_total demo_env (expenses overflowing) = Inr (Whole (- 2))"
    by code_simp
  have e: "\<not> is_empty (expenses overflowing)" by code_simp
  have 5: "summarize_by_category demo_env overflowing =
       ([SummaryHeader,
         Table [(''Category'', [Str ''Rent'']), (''Amount'', [Str ''$-2.00''])],
         Rule, TotalSpent ''$-2.00'', SummaryFooter],
        Inr (overflowing,
             Some [(''Category'', [Str ''Rent'']), (''Amount'', [Str ''$-2.00''])]))"
    using e by (simp add: summarize_by_category_def 3 4 summary_frame_formatted
        formatted_summary_def money_negative Let_def)
  show ?thesis using 1 2 3 4 5 by simp
qed

text \<open>
  Claim C5 as stated fails: line 77 overwrites the \<^verbatim>\<open>Amount\<close> column of the summary
  with the formatted texts before the summary is returned, so the value returned holds
  texts, not the numeric totals.
\<close>

theorem summarize_returns_text:
  "category_totals demo_env (expenses rent_paid) =
     Inr [(Str ''Rent'', Fin (2469 / 2)), (Str ''Food'', Fin (25 / 2))]
   \<and> snd (summarize_by_category demo_env rent_paid) =
       Inr (rent_paid,
            Some [(''Category'', [Str ''Rent'', Str ''Food'']),
                  (''Amount'', [Str ''$1,234.50'', Str ''$12.50''])])
   \<and> snd (summarize_by_category demo_env rent_paid) \<noteq>
       Inr (rent_paid,
            Some (numeric_summary [(Str ''Rent'', Fin (2469 / 2)), (Str ''Food'', Fin (25 / 2))]))"
proof -
  have h1: "ledger (expenses rent_paid)" by code_simp
  have h2: "\<not> is_empty (expenses rent_paid)" by code_simp
  have ct: "category_totals demo_env (expenses rent_paid) =
     Inr [(Str ''Rent'', Fin (2469 / 2)), (Str ''Food'', Fin (25 / 2))]"
    by code_simp
  have s: "snd (summarize_by_category demo_env rent_paid) =
       Inr (rent_paid,
            Some [(''Category'', [Str ''Rent'', Str ''Food'']),
                  (''Amount'', [Str ''$1,234.50'', Str ''$12.50''])])"
    using summarize_ledger[OF h1 h2 ct] by (simp add: formatted_summary_def money_values)
  show ?thesis using ct s by (simp add: numeric_summary_def)
qed

text \<open>
  Claim C5, amended. On a ledger that is not empty, \<^verbatim>\<open>summarize_by_category\<close> returns
  the frame of the categories, in the order of the sorted totals, with the total of each
  as currency text; the tracker is unchanged.
\<close>

theorem summarize_returns_formatted:
  assumes "ledger (expenses t)" and "\<not> is_empty (expenses t)"
  shows "\<exists>totals. category_totals env (expenses t) = Inr totals
     \<and> snd (summarize_by_category env t) = Inr (t, Some (formatted_summary totals))
     \<and> map_of (formatted_summary totals) ''Amount'' =
         Some (map (\<lambda>kv. Str (money (snd kv))) totals)"
proof -
  obtain totals where ct: "category_totals env (expenses t) = Inr totals"
    using category_totals_ledger[OF assms(1)] by blast
  show ?thesis
    using ct summarize_ledger[OF assms ct] by (simp add: formatted_summary_def)
qed

theorem summarize_returns_formatted_witness:
  "ledger (expenses food_rent) \<and> \<not> is_empty (expenses food_rent)
   \<and> snd (summarize_by_category demo_env food_rent) =
       Inr (food_rent,
            Some [(''Category'', [Str ''Rent'', Str ''Food'']),
                  (''Amount'', [Str ''$800.00'', Str ''$15.00''])])"
proof -
  have h1: "ledger (expenses food_rent)" by code_simp
  have h2: "\<not> is_empty (expenses food_rent)" by code_simp
  have ev: "category_totals demo_env (expenses food_rent) =
      Inr [(Str ''Rent'', Fin 800), (Str ''Food'', Fin 15)]"
    by code_simp
  from summarize_returns_formatted[OF h1 h2, of demo_env] ev
  have "snd (summarize_by_category demo_env food_rent) =
       Inr (food_rent, Some (formatted_summary [(Str ''Rent'', Fin 800), (Str ''Food'', Fin 15)]))"
    by auto
  then show ?thesis using h1 h2 by (simp add: formatted_summary_def money_values)
qed

section \<open>Saving\<close>

text \<open>
  Claim C6 as stated fails: \<^verbatim>\<open>save_expenses\<close> assigns the normalised dates to
  \<^verbatim>\<open>self.expenses['Date']\<close> before it writes, so a record loaded with a time of day
  has another date afterwards, here even though the write fails.
\<close>

theorem save_expenses_changes_dates:
  "records (expenses stamped) =
     [(Stamp (Date 2024 1 15) (Clock 13 45 0), Str ''Food'', Str ''lunch'', Num (Fin 5))]
   \<and> fst (save_expenses demo_env False Map.empty stamped) = [FailedToSave OSError]
   \<and> records (expenses (fst (snd (save_expenses demo_env False Map.empty stamped)))) =
     [(Day (Date 2024 1 15), Str ''Food'', Str ''lunch'', Num (Fin 5))]
   \<and> records (expenses (fst (snd (save_expenses demo_env False Map.empty stamped))))
       \<noteq> records (expenses stamped)"
  by code_simp

text \<open>
  Claim C6, amended. \<^verbatim>\<open>save_expenses\<close> always returns (it raises nothing) and prints
  either the confirmation or a failure message; the file name, the number and order of
  the records and the category, description and amount of every record are unchanged.
  When every date converts, the date of every record becomes its calendar date in memory,
  whether or not the write succeeds; when one does not, no date changes. The disk changes
  only when the dates convert and the write succeeds.
\<close>

theorem save_expenses_effect:
  "\<exists>out t' disk'. save_expenses env io_ok disk t = (out, t', disk')
     \<and> filename t' = filename t
     \<and> records (expenses t') =
         map (\<lambda>(d, c, s, a).
                (if dates_convert env (expenses t) then calendar_date env d else d, c, s, a))
           (records (expenses t))
     \<and> (if io_ok \<and> dates_convert env (expenses t)
        then out = [SavedTo (filename t)] \<and> disk' = disk(filename t \<mapsto> to_csv env (expenses t'))
        else (\<exists>e. out = [FailedToSave e]) \<and> disk' = disk)"
proof (cases "map_of (expenses t) ''Date''")
  case None
  then show ?thesis
    by (simp add: save_expenses_def getitem_def dates_convert_def case_prod_beta)
next
  case (Some col)
  show ?thesis
  proof (cases "\<exists>c \<in> set col. to_datetime env c = None")
    case True
    then have "\<not> dates_convert env (expenses t)"
      using Some by (auto simp: dates_convert_def list_all_iff)
    then show ?thesis using Some True
      by (simp add: save_expenses_def getitem_def case_prod_beta)
  next
    case False
    then have dc: "dates_convert env (expenses t)"
      using Some by (auto simp: dates_convert_def list_all_iff)
    have cd: "(\<lambda>c. dt_date (the (to_datetime env c))) = calendar_date env"
      by (rule ext) (simp add: calendar_date_def)
    from False have nf: "(\<exists>c \<in> set col. to_datetime env c = None) = False" by simp
    show ?thesis using Some dc records_setitem_date[OF Some, of "calendar_date env"]
      by (simp add: save_expenses_def getitem_def Let_def cd nf)
  qed
qed

theorem save_expenses_effect_witness:
  "dates_convert demo_env (expenses stamped)
   \<and> (\<exists>out t' disk'. save_expenses demo_env True Map.empty stamped = (out, t', disk')
        \<and> out = [SavedTo ''expenses.csv'']
        \<and> records (expenses t') =
            [(Day (Date 2024 1 15), Str ''Food'', Str ''lunch'', Num (Fin 5))]
        \<and> disk' = [''expenses.csv'' \<mapsto> to_csv demo_env (expenses t')])"
proof -
  have h: "dates_convert demo_env (expenses stamped)" by code_simp
  have r: "map (\<lambda>(d, c, s, a). (calendar_date demo_env d, c, s, a)) (records (expenses stamped)) =
      [(Day (Date 2024 1 15), Str ''Food'', Str ''lunch'', Num (Fin 5))]"
    by code_simp
  have f: "filename stamped = ''expenses.csv''" by (simp add: stamped_def)
  from save_expenses_effect[of demo_env True Map.empty stamped]
  show ?thesis using h r f by auto
qed

section \<open>Construction\<close>

text \<open>
  Claim C7 fails on the program: the assignment of line 35 is outside the \<^verbatim>\<open>try\<close>, so
  a file that parses and has no \<^verbatim>\<open>Amount\<close> column makes the constructor raise
  KeyError, after it has printed that one record was loaded. (For a missing, an empty and
  an unparsable file the constructor returns the empty ledger, as the lemmas above say.)
\<close>

theorem init_raises_without_amount_column:
  "no_amount_disk ''expenses.csv'' =
     Some (Csv [(''Date'', [''2024-01-15'']), (''Category'', [''Food'']),
                (''Description'', [''lunch''])])
   \<and> init demo_env no_amount_disk ''expenses.csv'' =
       ([LoadedRecords 1], Inl (KeyError ''Amount''))"
  by code_simp

text \<open>
  Claim C8. Loading an existing file that parses as a table with a \<^verbatim>\<open>Date\<close> and an
  \<^verbatim>\<open>Amount\<close> column succeeds; every column keeps its number of rows, and the amount
  of each row is the number its text reads as (a float, unless every amount of the file
  is an integer), and NaN where the text reads as no number: no row is dropped.
\<close>

theorem init_coerces_amounts:
  assumes "disk name = Some (Csv table)" and "''Date'' \<in> set (map fst table)"
    and "map_of table ''Amount'' = Some texts"
  shows "\<exists>out t. init env disk name = (out, Inr t)
           \<and> shape (expenses t) = shape table
           \<and> getitem (expenses t) ''Amount'' = Inr (map (coerced_amount env texts) texts)
           \<and> (\<forall>i < length texts. pd_numeric env (texts ! i) = None
                 \<longrightarrow> map (coerced_amount env texts) texts ! i = Num NaN)"
proof -
  let ?amounts = "map (coerced_amount env texts) texts"
  from init_table[where disk = disk and name = name and env = env, OF assms]
  obtain df where
    i: "init env disk name =
          ([LoadedRecords (nrows df)],
           Inr \<lparr>filename = name, expenses = setitem df ''Amount'' ?amounts\<rparr>)"
    and sh: "shape (setitem df ''Amount'' ?amounts) = shape table"
    by blast
  have gi: "getitem (setitem df ''Amount'' ?amounts) ''Amount'' = Inr ?amounts"
    by (simp add: getitem_def setitem_def update_conv')
  have nan: "\<forall>i < length texts. pd_numeric env (texts ! i) = None \<longrightarrow> ?amounts ! i = Num NaN"
    by (simp add: coerced_amount_def)
  show ?thesis using i sh gi nan by simp
qed

theorem init_coerces_amounts_witness:
  "odd_amounts_disk ''expenses.csv'' =
     Some (Csv [(''Date'', [''2024-01-15'', ''2024-01-15'', ''2024-01-15'']),
             (''Category'', [''Food'', ''Food'', ''Rent'']),
             (''Description'', [''lunch'', ''coffee'', ''january'']),
             (''Amount'', [''12.5'', ''twelve'', ''''])])
   \<and> (\<exists>out t. init demo_env odd_amounts_disk ''expenses.csv'' = (out, Inr t)
         \<and> shape (expenses t) =
             [(''Date'', 3), (''Category'', 3), (''Description'', 3), (''Amount'', 3)]
         \<and> getitem (expenses t) ''Amount'' = Inr [Num (Fin (25 / 2)), Num NaN, Num NaN])"
proof -
  let ?table = "[(''Date'', [''2024-01-15'', ''2024-01-15'', ''2024-01-15'']),
             (''Category'', [''Food'', ''Food'', ''Rent'']),
             (''Description'', [''lunch'', ''coffee'', ''january'']),
             (''Amount'', [''12.5'', ''twelve'', ''''])]"
  have h1: "odd_amounts_disk ''expenses.csv'' = Some (Csv ?table)"
    by (simp add: odd_amounts_disk_def)
  have h2: "''Date'' \<in> set (map fst ?table)" by simp
  have h3: "map_of ?table ''Amount'' = Some [''12.5'', ''twelve'', '''']" by simp
  have sh: "shape ?table = [(''Date'', 3), (''Category'', 3), (''Description'', 3), (''Amount'', 3)]"
    by (simp add: shape_def)
  have am: "map (coerced_amount demo_env [''12.5'', ''twelve'', '''']) [''12.5'', ''twelve'', ''''] =
      [Num (Fin (25 / 2)), Num NaN, Num NaN]"
    by code_simp
  from init_coerces_amounts[where disk = odd_amounts_disk and name = "''expenses.csv''"
      and env = demo_env, OF h1 h2 h3]
  show ?thesis using h1 sh am by auto
qed

section \<open>Viewing\<close>

text \<open>
  Claim C9. On a ledger, \<^verbatim>\<open>view_all_expenses\<close> returns the tracker it was given (so a
  second call sees the same state and prints the same); on an empty ledger it prints that
  there is nothing to view, and on any other it prints every record, in row order, with
  the amount as currency text.
\<close>

theorem view_all_expenses_read_only:
  assumes "ledger (expenses t)"
  shows "\<exists>out. view_all_expenses t = (out, Inr t)
          \<and> (is_empty (expenses t) \<longrightarrow> out = [NothingToView])
          \<and> (\<not> is_empty (expenses t) \<longrightarrow>
               (\<exists>shown. out = [ViewHeader, Table shown]
                 \<and> records shown =
                     map (\<lambda>(d, c, s, a). (d, c, s, amount_text a)) (records (expenses t))))"
proof -
  let ?col = "column_or_nan (expenses t) ''Amount''"
  have c: "map_of (expenses t) ''Amount'' = Some ?col"
    and f: "floats_of ?col = Inr (map num_of ?col)"
    using ledger_columns[OF assms] by simp_all
  have at: "amount_text = (\<lambda>v. Str (money v)) \<circ> num_of"
    by (rule ext) (simp add: amount_text_def)
  show ?thesis
    using c f records_setitem_amount[OF c, of amount_text]
    by (simp add: view_all_expenses_def getitem_def at Let_def)
qed

theorem view_all_expenses_read_only_witness:
  "ledger (expenses rent_paid) \<and> \<not> is_empty (expenses rent_paid)
   \<and> view_all_expenses rent_paid =
       ([ViewHeader,
         Table [(''Date'', [Day (Date 2024 1 10), Day (Date 2024 1 11)]),
                (''Category'', [Str ''Food'', Str ''Rent'']),
                (''Description'', [Str ''lunch'', Str ''january'']),
                (''Amount'', [Str ''$12.50'', Str ''$1,234.50''])]],
        Inr rent_paid)
   \<and> ledger (expenses new_tracker) \<and> is_empty (expenses new_tracker)
   \<and> view_all_expenses new_tracker = ([NothingToView], Inr new_tracker)"
proof -
  have h1: "ledger (expenses rent_paid)" by code_simp
  have h2: "\<not> is_empty (expenses rent_paid)" by code_simp
  have h3: "ledger (expenses new_tracker)" by code_simp
  have h4: "is_empty (expenses new_tracker)" by code_simp
  have e: "fst (view_all_expenses rent_paid) =
       [ViewHeader,
         Table [(''Date'', [Day (Date 2024 1 10), Day (Date 2024 1 11)]),
                (''Category'', [Str ''Food'', Str ''Rent'']),
                (''Description'', [Str ''lunch'', Str ''january'']),
                (''Amount'', [Str ''$12.50'', Str ''$1,234.50''])]]"
    by (simp add: view_all_expenses_def rent_paid_def is_empty_def nrows_def getitem_def
        floats_of_def is_number_def num_of_def setitem_def money_values)
  from view_all_expenses_read_only[OF h1] obtain out where
    1: "view_all_expenses rent_paid = (out, Inr rent_paid)" by blast
  from view_all_expenses_read_only[OF h3] h4 have
    2: "view_all_expenses new_tracker = ([NothingToView], Inr new_tracker)" by auto
  from 1 e have "view_all_expenses rent_paid =
       ([ViewHeader,
         Table [(''Date'', [Day (Date 2024 1 10), Day (Date 2024 1 11)]),
                (''Category'', [Str ''Food'', Str ''Rent'']),
                (''Description'', [Str ''lunch'', Str ''january'']),
                (''Amount'', [Str ''$12.50'', Str ''$1,234.50''])]],
        Inr rent_paid)" by simp
  then show ?thesis using h1 h2 h3 h4 2 by simp
qed

section \<open>The chart\<close>

text \<open>
  Claim C10 as stated fails: \<^verbatim>\<open>groupby\<close> leaves out the rows whose category is
  missing, so on a ledger that is not empty and has no category the summary is empty and
  the second guard of \<^verbatim>\<open>visualize_expenses\<close> is reached.
\<close>

theorem visualize_expenses_summary_failed:
  "ledger (expenses uncategorised) \<and> \<not> is_empty (expenses uncategorised)
   \<and> category_totals demo_env (expenses uncategorised) = Inr []
   \<and> visualize_expenses demo_env uncategorised = ([SummaryFailed], Inr uncategorised)"
  by code_simp

text \<open>
  Claim C10, amended. On a ledger that is not empty, the sums by category are empty exactly
  when the category of every record is missing; \<^verbatim>\<open>visualize_expenses\<close> then prints that
  the summary failed, and in every other case it goes on to the chart of the sums.
\<close>

theorem visualize_expenses_chart:
  assumes "ledger (expenses t)" and "\<not> is_empty (expenses t)"
  shows "\<exists>summary. category_totals env (expenses t) = Inr summary
     \<and> (summary = [] \<longleftrightarrow> list_all isna (categories (expenses t)))
     \<and> visualize_expenses env t =
         (if list_all isna (categories (expenses t)) then ([SummaryFailed], Inr t)
          else ([DisplayingChart, BarChart summary], Inr t))"
proof -
  have r: "rectangular (expenses t)" using assms(1) by (simp add: ledger_def)
  let ?summary = "sort_values_desc (groupby_sum env (column_or_nan (expenses t) ''Category'')
           (map num_of (column_or_nan (expenses t) ''Amount'')))"
  have ct: "category_totals env (expenses t) = Inr ?summary"
    by (rule category_totals_ledger[OF assms(1)])
  have e: "?summary = [] \<longleftrightarrow> list_all isna (categories (expenses t))"
    by (simp add: sort_values_desc_Nil groupby_sum_Nil categories_ledger[OF r])
  show ?thesis
    using ct e assms(2) by (simp add: visualize_expenses_def)
qed

theorem visualize_expenses_chart_witness:
  "ledger (expenses food_rent) \<and> \<not> is_empty (expenses food_rent)
   \<and> \<not> list_all isna (categories (expenses food_rent))
   \<and> visualize_expenses demo_env food_rent =
        ([DisplayingChart, BarChart [(Str ''Rent'', Fin 800), (Str ''Food'', Fin 15)]],
         Inr food_rent)"
proof -
  have h1: "ledger (expenses food_rent)" by code_simp
  have h2: "\<not> is_empty (expenses food_rent)" by code_simp
  have h3: "\<not> list_all isna (categories (expenses food_rent))" by code_simp
  have ev: "category_totals demo_env (expenses food_rent) =
      Inr [(Str ''Rent'', Fin 800), (Str ''Food'', Fin 15)]"
    by code_simp
  from visualize_expenses_chart[OF h1 h2, of demo_env] ev h3
  have "visualize_expenses demo_env food_rent =
        ([DisplayingChart, BarChart [(Str ''Rent'', Fin 800), (Str ''Food'', Fin 15)]],
         Inr food_rent)"
    by auto
  then show ?thesis using h1 h2 h3 by simp
qed

end
